theory Spec2Isabelle
  imports Main
begin

section \<open>Data model of the Redactor plugin (src/main.ts)\<close>

text \<open>
  The plugin is an object with mutable fields that talks to three outside parties: the
  vault of the host application, the local detection server, and the user (notices, the
  editor, the status bar). The embedding keeps the plugin and everything it can change in
  one record, \<open>plugin\<close>, which every method takes and returns; what the outside world
  answers (server replies, I/O faults, the result of parsing a file, the clock) is read
  from a second record, \<open>host\<close>, which a method never changes. A method runs to completion:
  steps of other tasks between two of its suspension points are not part of the model.

  Strings are lists of bytes. The non-ASCII characters of the source's messages are
  written as their UTF-8 bytes.
\<close>

type_synonym token_record = "string \<rightharpoonup> string"
  \<comment> \<open>\<open>Record<string, string>\<close>: the order of the keys is not kept\<close>

record RedactorSettings =
  serverUrl :: string
  redactFolder :: string
  restoreFolder :: string
  mapsFolder :: string
  deepScan :: bool

record RedactResponse =
  redacted_text :: string
  map_resp :: token_record
  entity_counts :: "(string \<times> int) list"

record RestoreResponse =
  restored_text :: string

record MapFile =
  file_name :: string
  created :: string
  tokens :: token_record

text \<open>A \<open>TFile\<close> handle carries the name and the vault path of a file.\<close>

datatype TFile = TFile (name: string) (path: string)

text \<open>
  What the vault holds at a path: a file with its content, or a folder.
  \<open>getAbstractFileByPath\<close> is the lookup in this map, and its result is an
  \<open>instanceof TFile\<close> exactly when the entry is a \<open>File\<close>.
\<close>

datatype abstract_file = File string | Folder

text \<open>
  The editor of the active note: the text before the selection, the selection, and the
  text after it. \<open>replaceSelection\<close> puts the new text in place of the selection and leaves
  the cursor behind it.
\<close>

record Editor =
  text_before :: string
  selection :: string
  text_after :: string

datatype request =
    PostRedact string string bool
  | PostRestore string string "token_record option"
  | GetStatus string

datatype exn = RequestFailed | IOFailed | SyntaxError | TypeError

datatype io_op =
    Read string | Modify string | Create string | CreateFolder string
  | Exists string | OpenFile string

text \<open>
  The value \<open>JSON.parse\<close> returns, as far as the source looks into it: \<open>null\<close>, on which
  reading \<open>.tokens\<close> throws a TypeError, or any other value, of which only the \<open>tokens\<close>
  property is read (\<open>None\<close> when it is \<open>undefined\<close> or \<open>null\<close>). A \<open>tokens\<close> property that is
  present is taken to have the type the source asserts for it (\<open>as MapFile\<close>).
\<close>

datatype json = JsonNull | JsonValue "token_record option"

record host =
  redact_reply :: "string \<Rightarrow> string \<Rightarrow> bool \<Rightarrow> RedactResponse option"
  restore_reply :: "string \<Rightarrow> string \<Rightarrow> token_record option \<Rightarrow> RestoreResponse option"
  status_reply :: "string \<Rightarrow> bool"
  io_fault :: "io_op \<Rightarrow> bool"
  JSON_parse :: "string \<Rightarrow> json option"
  JSON_stringify :: "MapFile \<Rightarrow> string"
  now :: string

record plugin =
  settings :: RedactorSettings
  serverOnline :: bool
  vault :: "string \<rightharpoonup> abstract_file"
  activeFile :: "TFile option"
  editor :: Editor
  notices :: "string list"
  console :: "string list"
  requests :: "request list"
  opened :: "string list"
  statusBarText :: string
  statusBarClasses :: "string list"
  ribbonColor :: string

text \<open>
  An awaited call either returns a value or throws, and what it did to the plugin and the
  vault before throwing stays done: the result pairs the outcome with the state.
\<close>

type_synonym 'a result = "(exn + 'a) \<times> plugin"

section \<open>Defaults\<close>

definition DEFAULT_SETTINGS :: RedactorSettings where
  "DEFAULT_SETTINGS =
     \<lparr>serverUrl = ''http://localhost:8765'', redactFolder = ''redact/redacted'',
      restoreFolder = ''redact/reversed'', mapsFolder = ''redact/maps'', deepScan = False\<rparr>"

section \<open>Messages\<close>

definition emdash :: string where
  "emdash = [CHR 0xE2, CHR 0x80, CHR 0x94]"

definition lock :: string where
  "lock = [CHR 0xF0, CHR 0x9F, CHR 0x94, CHR 0x92]"

definition ellipsis :: string where
  "ellipsis = [CHR 0xE2, CHR 0x80, CHR 0xA6]"

definition dquote :: string where
  "dquote = [CHR 0x22]"

definition offline_notice :: string where
  "offline_notice = ''Redactor: server offline '' @ emdash @ '' start run_phi.py first''"

definition Notice :: "string \<Rightarrow> plugin \<Rightarrow> plugin" where
  "Notice msg w = w\<lparr>notices := notices w @ [msg]\<rparr>"

definition console_error :: "string \<Rightarrow> plugin \<Rightarrow> plugin" where
  "console_error msg w = w\<lparr>console := console w @ [msg]\<rparr>"

section \<open>Service health\<close>

text \<open>
  The plugin as \<open>onload\<close> has it just before its first status check: \<open>serverOnline\<close> has
  the value of its field initialiser, \<open>false\<close>, the status bar says "checking", and nothing
  has been reported or requested yet.
\<close>

definition new_plugin ::
  "RedactorSettings \<Rightarrow> (string \<rightharpoonup> abstract_file) \<Rightarrow> TFile option \<Rightarrow> Editor \<Rightarrow> plugin" where
  "new_plugin s v a e =
     \<lparr>settings = s, serverOnline = False, vault = v, activeFile = a, editor = e,
      notices = [], console = [], requests = [], opened = [],
      statusBarText = lock @ '' Redactor: checking'' @ ellipsis, statusBarClasses = [''redactor-status-bar''],
      ribbonColor = ''''\<rparr>"

definition addClass :: "string \<Rightarrow> string list \<Rightarrow> string list" where
  "addClass c cs = (if c \<in> set cs then cs else cs @ [c])"

definition removeClass :: "string \<Rightarrow> string list \<Rightarrow> string list" where
  "removeClass c cs = filter (\<lambda>d. d \<noteq> c) cs"

definition refreshStatusUI :: "plugin \<Rightarrow> plugin" where
  "refreshStatusUI w =
     (if serverOnline w then
        w\<lparr>statusBarText := lock @ '' Redactor: online'',
          statusBarClasses :=
            addClass ''redactor-status-bar--online''
              (removeClass ''redactor-status-bar--offline'' (statusBarClasses w)),
          ribbonColor := ''var(--color-green)''\<rparr>
      else
        w\<lparr>statusBarText := lock @ '' Redactor: offline'',
          statusBarClasses :=
            addClass ''redactor-status-bar--offline''
              (removeClass ''redactor-status-bar--online'' (statusBarClasses w)),
          ribbonColor := ''var(--color-red)''\<rparr>)"

text \<open>\<open>requestUrl\<close> on \<open>GET /status\<close>: the request goes out, and the server answers or not.\<close>

definition requestUrl_status :: "host \<Rightarrow> plugin \<Rightarrow> unit result" where
  "requestUrl_status h w =
     (let url = serverUrl (settings w) @ ''/status'';
          w1 = w\<lparr>requests := requests w @ [GetStatus url]\<rparr>
      in if status_reply h url then (Inr (), w1) else (Inl RequestFailed, w1))"

definition updateServerStatus :: "host \<Rightarrow> plugin \<Rightarrow> unit result" where
  "updateServerStatus h w =
     (case requestUrl_status h w of
        (Inr _, w1) \<Rightarrow> (Inr (), refreshStatusUI (w1\<lparr>serverOnline := True\<rparr>))
      | (Inl _, w1) \<Rightarrow> (Inr (), refreshStatusUI (w1\<lparr>serverOnline := False\<rparr>)))"

definition assertOnline :: "plugin \<Rightarrow> bool \<times> plugin" where
  "assertOnline w =
     (if \<not> serverOnline w then (False, Notice offline_notice w) else (True, w))"

section \<open>Vault helpers\<close>

text \<open>
  The vault API of the host. A call fails when the host says so (\<open>io_fault\<close>: a disk error,
  a missing parent folder, ...), when a file to read or modify is not there, and when the
  path of a file or folder to create is taken.
\<close>

definition vault_read :: "host \<Rightarrow> string \<Rightarrow> plugin \<Rightarrow> exn + string" where
  "vault_read h p w =
     (if io_fault h (Read p) then Inl IOFailed
      else case vault w p of Some (File c) \<Rightarrow> Inr c | _ \<Rightarrow> Inl IOFailed)"

definition vault_modify :: "host \<Rightarrow> string \<Rightarrow> string \<Rightarrow> plugin \<Rightarrow> unit result" where
  "vault_modify h p content w =
     (if io_fault h (Modify p) then (Inl IOFailed, w)
      else case vault w p of
             Some (File _) \<Rightarrow> (Inr (), w\<lparr>vault := (vault w)(p \<mapsto> File content)\<rparr>)
           | _ \<Rightarrow> (Inl IOFailed, w))"

definition vault_create :: "host \<Rightarrow> string \<Rightarrow> string \<Rightarrow> plugin \<Rightarrow> unit result" where
  "vault_create h p content w =
     (if io_fault h (Create p) then (Inl IOFailed, w)
      else case vault w p of
             None \<Rightarrow> (Inr (), w\<lparr>vault := (vault w)(p \<mapsto> File content)\<rparr>)
           | Some _ \<Rightarrow> (Inl IOFailed, w))"

definition vault_createFolder :: "host \<Rightarrow> string \<Rightarrow> plugin \<Rightarrow> unit result" where
  "vault_createFolder h p w =
     (if io_fault h (CreateFolder p) then (Inl IOFailed, w)
      else case vault w p of
             None \<Rightarrow> (Inr (), w\<lparr>vault := (vault w)(p \<mapsto> Folder)\<rparr>)
           | Some _ \<Rightarrow> (Inl IOFailed, w))"

definition adapter_exists :: "host \<Rightarrow> string \<Rightarrow> plugin \<Rightarrow> exn + bool" where
  "adapter_exists h p w =
     (if io_fault h (Exists p) then Inl IOFailed
      else case vault w p of None \<Rightarrow> Inr False | Some _ \<Rightarrow> Inr True)"

definition openFile :: "host \<Rightarrow> string \<Rightarrow> plugin \<Rightarrow> unit result" where
  "openFile h p w =
     (if io_fault h (OpenFile p) then (Inl IOFailed, w)
      else (Inr (), w\<lparr>opened := opened w @ [p]\<rparr>))"

text \<open>\<open>s.split(c)\<close>: the pieces of \<open>s\<close> between the occurrences of \<open>c\<close>; never an empty list.\<close>

fun split :: "char \<Rightarrow> string \<Rightarrow> string list" where
  "split c [] = [[]]"
| "split c (x # xs) =
     (if x = c then [] # split c xs
      else case split c xs of [] \<Rightarrow> [[x]] | y # ys \<Rightarrow> (x # y) # ys)"

text \<open>\<open>s.lastIndexOf(c)\<close>, with \<open>None\<close> for the source's \<open>-1\<close>.\<close>

fun lastIndexOf :: "char \<Rightarrow> string \<Rightarrow> nat option" where
  "lastIndexOf c [] = None"
| "lastIndexOf c (x # xs) =
     (case lastIndexOf c xs of
        Some i \<Rightarrow> Some (Suc i)
      | None \<Rightarrow> if x = c then Some 0 else None)"

text \<open>
  The first statement of \<open>saveVaultFile\<close>:
  \<open>path.includes("/") ? path.substring(0, path.lastIndexOf("/")) : ""\<close>.
\<close>

definition folderPath_of :: "string \<Rightarrow> string" where
  "folderPath_of p =
     (case lastIndexOf (CHR ''/'') p of Some i \<Rightarrow> take i p | None \<Rightarrow> [])"

text \<open>
  The loop of \<open>ensureFolder\<close> over the parts of the folder path, with the loop variable
  \<open>current\<close>. A throw of \<open>createFolder\<close> is swallowed; one of \<open>adapter.exists\<close> is not.
\<close>

fun ensureFolder_loop :: "host \<Rightarrow> string list \<Rightarrow> string \<Rightarrow> plugin \<Rightarrow> unit result" where
  "ensureFolder_loop h [] current w = (Inr (), w)"
| "ensureFolder_loop h (part # parts) current w =
     (let current' = (if current \<noteq> [] then current @ ''/'' @ part else part)
      in case adapter_exists h current' w of
           Inl e \<Rightarrow> (Inl e, w)
         | Inr ex \<Rightarrow>
             if \<not> ex then ensureFolder_loop h parts current' (snd (vault_createFolder h current' w))
             else ensureFolder_loop h parts current' w)"

definition ensureFolder :: "host \<Rightarrow> string \<Rightarrow> plugin \<Rightarrow> unit result" where
  "ensureFolder h folderPath w =
     (if folderPath = [] then (Inr (), w)
      else ensureFolder_loop h (filter (\<lambda>p. length p > 0) (split (CHR ''/'') folderPath)) [] w)"

text \<open>\<open>saveVaultFile\<close> returns the path of the file it wrote, standing for its handle.\<close>

definition saveVaultFile :: "host \<Rightarrow> string \<Rightarrow> string \<Rightarrow> plugin \<Rightarrow> string result" where
  "saveVaultFile h p content w =
     (let folderPath = folderPath_of p
      in case (if folderPath \<noteq> [] then ensureFolder h folderPath w else (Inr (), w)) of
           (Inl e, w1) \<Rightarrow> (Inl e, w1)
         | (Inr _, w1) \<Rightarrow>
             (case vault w1 p of
                Some (File _) \<Rightarrow>
                  (case vault_modify h p content w1 of
                     (Inl e, w2) \<Rightarrow> (Inl e, w2)
                   | (Inr _, w2) \<Rightarrow> (Inr p, w2))
              | _ \<Rightarrow>
                  (case vault_create h p content w1 of
                     (Inl e, w2) \<Rightarrow> (Inl e, w2)
                   | (Inr _, w2) \<Rightarrow> (Inr p, w2))))"

section \<open>Utilities\<close>

text \<open>The decimal numeral of an integer, as a template string prints a count.\<close>

fun show_nat :: "nat \<Rightarrow> string" where
  "show_nat n =
     (if n < 10 then [''0123456789'' ! n]
      else show_nat (n div 10) @ [''0123456789'' ! (n mod 10)])"

declare show_nat.simps [simp del]

definition show_int :: "int \<Rightarrow> string" where
  "show_int i = (if i < 0 then CHR ''-'' # show_nat (nat (- i)) else show_nat (nat i))"

definition LABEL_DISPLAY :: "(string \<times> string) list" where
  "LABEL_DISPLAY =
     [(''PERSON'', ''names''), (''COMPANY'', ''companies''), (''PHONE'', ''phones''),
      (''EMAIL'', ''emails''), (''ADDRESS'', ''locations''), (''POSTCODE'', ''postcodes''),
      (''TAX'', ''tax IDs''), (''NI'', ''NI numbers''), (''DATE'', ''dates''),
      (''URL'', ''URLs''), (''CURRENCY'', ''amounts'')]"

text \<open>\<open>toLowerCase\<close> on the ASCII letters; the labels of the server are ASCII.\<close>

definition toLowerCase :: "string \<Rightarrow> string" where
  "toLowerCase s =
     map (\<lambda>c. if 65 \<le> (of_char c :: nat) \<and> (of_char c :: nat) \<le> 90
              then char_of ((of_char c :: nat) + 32) else c) s"

fun join :: "string \<Rightarrow> string list \<Rightarrow> string" where
  "join sep [] = []"
| "join sep [x] = x"
| "join sep (x # y # ys) = x @ sep @ join sep (y # ys)"

definition buildCountSummary :: "(string \<times> int) list \<Rightarrow> string" where
  "buildCountSummary counts =
     (let total = sum_list (map snd counts)
      in if total = 0 then ''Redacted: no entities found''
         else ''Redacted: '' @
              join '', ''
                (map (\<lambda>(label, n).
                        show_int n @ '' '' @
                        (case map_of LABEL_DISPLAY label of
                           Some d \<Rightarrow> d
                         | None \<Rightarrow> toLowerCase label))
                   (filter (\<lambda>(label, n). n > 0) counts)))"

text \<open>The closing notice of \<open>redactSelectedText\<close>.\<close>

definition selectionSummary :: "(string \<times> int) list \<Rightarrow> string" where
  "selectionSummary counts =
     (let total = sum_list (map snd counts)
      in if total = 0 then ''No entities found in selection''
         else ''Redacted '' @ show_int total @ '' entities in selection'')"

section \<open>Requests to the detection server\<close>

text \<open>
  \<open>requestUrl\<close> on \<open>POST /redact\<close> and the read of \<open>res.json\<close>: the request goes out with the
  text and the deep-scan setting; no reply, an error status or a body that is not JSON is a
  throw.
\<close>

definition requestUrl_redact :: "host \<Rightarrow> string \<Rightarrow> plugin \<Rightarrow> RedactResponse result" where
  "requestUrl_redact h text w =
     (let url = serverUrl (settings w) @ ''/redact'';
          deep = deepScan (settings w);
          w1 = w\<lparr>requests := requests w @ [PostRedact url text deep]\<rparr>
      in case redact_reply h url text deep of
           None \<Rightarrow> (Inl RequestFailed, w1)
         | Some r \<Rightarrow> (Inr r, w1))"

text \<open>
  \<open>POST /restore\<close>. The body is built from \<open>mapData.tokens\<close> first, inside the same
  \<open>try\<close>: on a map file that holds \<open>null\<close> this read throws, and no request goes out.
\<close>

definition requestUrl_restore :: "host \<Rightarrow> string \<Rightarrow> json \<Rightarrow> plugin \<Rightarrow> RestoreResponse result" where
  "requestUrl_restore h text mapData w =
     (case mapData of
        JsonNull \<Rightarrow> (Inl TypeError, w)
      | JsonValue t \<Rightarrow>
          (let url = serverUrl (settings w) @ ''/restore'';
               w1 = w\<lparr>requests := requests w @ [PostRestore url text t]\<rparr>
           in case restore_reply h url text t of
                None \<Rightarrow> (Inl RequestFailed, w1)
              | Some r \<Rightarrow> (Inr r, w1)))"

text \<open>The \<open>catch\<close> block the three commands share for a failed request.\<close>

definition request_failed :: "string \<Rightarrow> plugin \<Rightarrow> plugin" where
  "request_failed msg w =
     refreshStatusUI ((Notice offline_notice (console_error msg w))\<lparr>serverOnline := False\<rparr>)"

definition mapPath_of :: "plugin \<Rightarrow> TFile \<Rightarrow> string" where
  "mapPath_of w f = mapsFolder (settings w) @ ''/'' @ name f @ ''.map.json''"

section \<open>Whole-document redaction\<close>

text \<open>The last \<open>try\<close> block of \<open>redactFile\<close>: the two saves, the summary, the new tab.\<close>

definition redactFile_save :: "host \<Rightarrow> TFile \<Rightarrow> RedactResponse \<Rightarrow> plugin \<Rightarrow> unit result" where
  "redactFile_save h f response w =
     (let redactedPath = redactFolder (settings w) @ ''/'' @ name f
      in case saveVaultFile h redactedPath (redacted_text response) w of
           (Inl e, w1) \<Rightarrow> (Inl e, w1)
         | (Inr redactedFile, w1) \<Rightarrow>
             (let mapData = \<lparr>file_name = name f, created = now h, tokens = map_resp response\<rparr>;
                  mapPath = mapPath_of w1 f
              in case saveVaultFile h mapPath (JSON_stringify h mapData) w1 of
                   (Inl e, w2) \<Rightarrow> (Inl e, w2)
                 | (Inr _, w2) \<Rightarrow>
                     openFile h redactedFile
                       (Notice (buildCountSummary (entity_counts response)) w2)))"

definition redactFile :: "host \<Rightarrow> TFile \<Rightarrow> plugin \<Rightarrow> unit result" where
  "redactFile h f w =
     (case assertOnline w of
        (ok, w0) \<Rightarrow>
          if \<not> ok then (Inr (), w0)
          else case vault_read h (path f) w0 of
                 Inl e \<Rightarrow>
                   (Inr (), Notice (''Redactor: could not read '' @ name f)
                              (console_error ''Redactor: failed to read file'' w0))
               | Inr text \<Rightarrow>
                   (case requestUrl_redact h text w0 of
                      (Inl e, w1) \<Rightarrow>
                        (Inr (), request_failed ''Redactor: /redact request failed'' w1)
                    | (Inr response, w1) \<Rightarrow>
                        (case redactFile_save h f response w1 of
                           (Inl e, w2) \<Rightarrow>
                             (Inr (), Notice ''Redactor: could not save output files.''
                                        (console_error ''Redactor: failed to save redacted file'' w2))
                         | (Inr _, w2) \<Rightarrow> (Inr (), w2))))"

definition redactCurrentNote :: "host \<Rightarrow> plugin \<Rightarrow> unit result" where
  "redactCurrentNote h w =
     (case activeFile w of
        None \<Rightarrow> (Inr (), Notice ''No active file.'' w)
      | Some f \<Rightarrow> redactFile h f w)"

section \<open>Restoration\<close>

text \<open>The \<open>try\<close> block that reads and parses the map file.\<close>

definition read_mapData :: "host \<Rightarrow> string \<Rightarrow> plugin \<Rightarrow> exn + json" where
  "read_mapData h p w =
     (case vault_read h p w of
        Inl e \<Rightarrow> Inl e
      | Inr mapRaw \<Rightarrow>
          (case JSON_parse h mapRaw of
             None \<Rightarrow> Inl SyntaxError
           | Some mapData \<Rightarrow> Inr mapData))"

text \<open>The last \<open>try\<close> block of \<open>restoreCurrentNote\<close>.\<close>

definition restore_save :: "host \<Rightarrow> TFile \<Rightarrow> RestoreResponse \<Rightarrow> plugin \<Rightarrow> unit result" where
  "restore_save h f response w =
     (let restoredPath = restoreFolder (settings w) @ ''/'' @ name f
      in case saveVaultFile h restoredPath (restored_text response) w of
           (Inl e, w1) \<Rightarrow> (Inl e, w1)
         | (Inr restoredFile, w1) \<Rightarrow>
             openFile h restoredFile
               (Notice (''Restored '' @ dquote @ name f @ dquote @ '' successfully'') w1))"

definition restoreCurrentNote :: "host \<Rightarrow> plugin \<Rightarrow> unit result" where
  "restoreCurrentNote h w =
     (case assertOnline w of
        (ok, w0) \<Rightarrow>
          if \<not> ok then (Inr (), w0)
          else case activeFile w0 of
                 None \<Rightarrow> (Inr (), Notice ''No active file.'' w0)
               | Some f \<Rightarrow>
                   (let mapPath = mapPath_of w0 f
                    in case vault w0 mapPath of
                         Some (File _) \<Rightarrow>
                           (case read_mapData h mapPath w0 of
                              Inl e \<Rightarrow>
                                (Inr (), Notice ''Redactor: map file is missing or corrupted.''
                                           (console_error ''Redactor: failed to read map file'' w0))
                            | Inr mapData \<Rightarrow>
                                (case vault_read h (path f) w0 of
                                   Inl e \<Rightarrow>
                                     (Inr (), Notice (''Redactor: could not read '' @ name f)
                                                (console_error ''Redactor: failed to read file'' w0))
                                 | Inr text \<Rightarrow>
                                     (case requestUrl_restore h text mapData w0 of
                                        (Inl e, w1) \<Rightarrow>
                                          (Inr (), request_failed ''Redactor: /restore request failed'' w1)
                                      | (Inr response, w1) \<Rightarrow>
                                          (case restore_save h f response w1 of
                                             (Inl e, w2) \<Rightarrow>
                                               (Inr (), Notice ''Redactor: could not save restored file.''
                                                          (console_error ''Redactor: failed to save restored file'' w2))
                                           | (Inr _, w2) \<Rightarrow> (Inr (), w2)))))
                       | _ \<Rightarrow>
                           (Inr (), Notice (''No map found for '' @ dquote @ name f @ dquote @ '' '' @
                                            emdash @ '' redact it first'') w0)))"

section \<open>Inline redaction\<close>

definition replaceSelection :: "string \<Rightarrow> Editor \<Rightarrow> Editor" where
  "replaceSelection t e = e\<lparr>text_before := text_before e @ t, selection := []\<rparr>"

text \<open>
  The inner \<open>try\<close> block of \<open>redactSelectedText\<close>:
  \<open>(JSON.parse(raw) as MapFile).tokens ?? {}\<close> on the content of the map file.
\<close>

definition read_tokens :: "host \<Rightarrow> string \<Rightarrow> plugin \<Rightarrow> exn + token_record" where
  "read_tokens h p w =
     (case vault_read h p w of
        Inl e \<Rightarrow> Inl e
      | Inr raw \<Rightarrow>
          (case JSON_parse h raw of
             None \<Rightarrow> Inl SyntaxError
           | Some JsonNull \<Rightarrow> Inl TypeError
           | Some (JsonValue None) \<Rightarrow> Inr Map.empty
           | Some (JsonValue (Some t)) \<Rightarrow> Inr t))"

text \<open>
  The variable \<open>existingTokens\<close>: \<open>{}\<close>, replaced by the tokens of the map file when there
  is one and it reads; the empty \<open>catch\<close> leaves \<open>{}\<close>.
\<close>

definition existingTokens :: "host \<Rightarrow> string \<Rightarrow> plugin \<Rightarrow> token_record" where
  "existingTokens h mapPath w =
     (case vault w mapPath of
        Some (File _) \<Rightarrow>
          (case read_tokens h mapPath w of
             Inl e \<Rightarrow> Map.empty
           | Inr t \<Rightarrow> t)
      | _ \<Rightarrow> Map.empty)"

text \<open>The object spread \<open>{ ...existingTokens, ...response.map }\<close>: the later source wins.\<close>

definition spread :: "token_record \<Rightarrow> token_record \<Rightarrow> token_record" where
  "spread a b = a ++ b"

text \<open>The outer \<open>try\<close> block of \<open>redactSelectedText\<close>: load, merge, save.\<close>

definition merge_save :: "host \<Rightarrow> TFile \<Rightarrow> RedactResponse \<Rightarrow> plugin \<Rightarrow> string result" where
  "merge_save h f response w =
     (let mapPath = mapPath_of w f;
          mapData = \<lparr>file_name = name f, created = now h,
                     tokens = spread (existingTokens h mapPath w) (map_resp response)\<rparr>
      in saveVaultFile h mapPath (JSON_stringify h mapData) w)"

definition redactSelectedText :: "host \<Rightarrow> TFile option \<Rightarrow> plugin \<Rightarrow> unit result" where
  "redactSelectedText h ctx_file w =
     (case assertOnline w of
        (ok, w0) \<Rightarrow>
          if \<not> ok then (Inr (), w0)
          else if selection (editor w0) = [] then (Inr (), Notice ''No text selected.'' w0)
          else case ctx_file of
                 None \<Rightarrow> (Inr (), Notice ''No active file.'' w0)
               | Some f \<Rightarrow>
                   (case requestUrl_redact h (selection (editor w0)) w0 of
                      (Inl e, w1) \<Rightarrow>
                        (Inr (), request_failed ''Redactor: /redact request failed'' w1)
                    | (Inr response, w1) \<Rightarrow>
                        (let w2 = w1\<lparr>editor := replaceSelection (redacted_text response) (editor w1)\<rparr>
                         in case merge_save h f response w2 of
                              (Inl e, w3) \<Rightarrow>
                                (Inr (), Notice ''Redactor: selection redacted but map save failed.''
                                           (console_error ''Redactor: failed to save map'' w3))
                            | (Inr _, w3) \<Rightarrow>
                                (Inr (), Notice (selectionSummary (entity_counts response)) w3))))"

section \<open>Example inputs\<close>

text \<open>
  The plugin with the settings the source ships, on a small vault in the shape of the
  scenarios of the specification: the note \<open>note.md\<close>, whose whole-document redaction found a person and an
  e-mail address, and its map file. The example host answers three texts, never fails an
  I/O call, parses the one map file of the example (and \<open>null\<close>), and prints a map file as
  its name, its timestamp and its entries for three tokens.
\<close>

definition example_file :: TFile where
  "example_file = TFile ''note.md'' ''note.md''"

definition example_map_path :: string where
  "example_map_path = ''redact/maps/note.md.map.json''"

definition example_tokens :: token_record where
  "example_tokens = [''[PERSON_1]'' \<mapsto> ''John Smith'', ''[EMAIL_1]'' \<mapsto> ''john@acme.com'']"

definition example_map_raw :: string where
  "example_map_raw =
     ''note.md|2024-01-01T00:00:00.000Z|[PERSON_1]=John Smith;[EMAIL_1]=john@acme.com;''"

definition example_parse :: "string \<Rightarrow> json option" where
  "example_parse s =
     (if s = example_map_raw then Some (JsonValue (Some example_tokens))
      else if s = ''null'' then Some JsonNull
      else None)"

definition example_stringify :: "MapFile \<Rightarrow> string" where
  "example_stringify m =
     file_name m @ ''|'' @ created m @ ''|'' @
     concat (map (\<lambda>k. case tokens m k of None \<Rightarrow> [] | Some v \<Rightarrow> k @ ''='' @ v @ '';'')
               [''[PERSON_1]'', ''[EMAIL_1]'', ''[PHONE_1]''])"

definition document_response :: RedactResponse where
  "document_response =
     \<lparr>redacted_text = ''Contact [PERSON_1] at [EMAIL_1]'',
      map_resp = [''[PERSON_1]'' \<mapsto> ''John Smith'', ''[EMAIL_1]'' \<mapsto> ''john@acme.com''],
      entity_counts = [(''PERSON'', 1), (''EMAIL'', 1)]\<rparr>"

definition phone_response :: RedactResponse where
  "phone_response =
     \<lparr>redacted_text = ''[PERSON_1] on [PHONE_1]'',
      map_resp = [''[PERSON_1]'' \<mapsto> ''John Smith'', ''[PHONE_1]'' \<mapsto> ''07911 123456''],
      entity_counts = [(''PERSON'', 1), (''PHONE'', 1)]\<rparr>"

definition person_response :: RedactResponse where
  "person_response =
     \<lparr>redacted_text = ''ask [PERSON_1]'',
      map_resp = [''[PERSON_1]'' \<mapsto> ''Jane Doe''],
      entity_counts = [(''PERSON'', 1)]\<rparr>"

definition example_host :: host where
  "example_host =
     \<lparr>redact_reply = (\<lambda>url body deep.
          if body = ''Contact John Smith at john@acme.com'' then Some document_response
          else if body = ''John Smith on 07911 123456'' then Some phone_response
          else if body = ''ask Jane Doe'' then Some person_response
          else None),
      restore_reply = (\<lambda>url body m. None),
      status_reply = (\<lambda>url. True),
      io_fault = (\<lambda>op. False),
      JSON_parse = example_parse,
      JSON_stringify = example_stringify,
      now = ''2024-06-01T12:00:00.000Z''\<rparr>"

text \<open>The plugin with the note open, a selection in its editor and a map file content.\<close>

definition example_vault :: "string \<Rightarrow> string \<rightharpoonup> abstract_file" where
  "example_vault raw =
     [''note.md'' \<mapsto> File ''Contact John Smith at john@acme.com'',
      ''redact'' \<mapsto> Folder, ''redact/maps'' \<mapsto> Folder,
      example_map_path \<mapsto> File raw]"

definition example_plugin :: "string \<Rightarrow> string \<Rightarrow> plugin" where
  "example_plugin sel raw =
     (new_plugin DEFAULT_SETTINGS (example_vault raw) (Some example_file)
        \<lparr>text_before = ''Please '', selection = sel, text_after = '' today.''\<rparr>)
     \<lparr>serverOnline := True\<rparr>"

text \<open>The same note before any redaction: no map file, no folder.\<close>

definition fresh_plugin :: "string \<Rightarrow> plugin" where
  "fresh_plugin sel =
     (new_plugin DEFAULT_SETTINGS
        [''note.md'' \<mapsto> File ''Contact John Smith at john@acme.com'']
        (Some example_file)
        \<lparr>text_before = ''Please '', selection = sel, text_after = '' today.''\<rparr>)
     \<lparr>serverOnline := True\<rparr>"

text \<open>
  Contents of the map file of the example: after the phone number was merged in, after a
  fresh whole-document redaction, after a second person overwrote the first, and with the
  fragment of the inline reply alone.
\<close>

definition merged_map_raw :: string where
  "merged_map_raw =
     ''note.md|2024-06-01T12:00:00.000Z|[PERSON_1]=John Smith;[EMAIL_1]=john@acme.com;[PHONE_1]=07911 123456;''"

definition overwritten_map_raw :: string where
  "overwritten_map_raw =
     ''note.md|2024-06-01T12:00:00.000Z|[PERSON_1]=Jane Doe;[EMAIL_1]=john@acme.com;''"

definition fresh_map_raw :: string where
  "fresh_map_raw =
     ''note.md|2024-06-01T12:00:00.000Z|[PERSON_1]=John Smith;[EMAIL_1]=john@acme.com;''"

definition fragment_map_raw :: string where
  "fragment_map_raw =
     ''note.md|2024-06-01T12:00:00.000Z|[PERSON_1]=John Smith;[PHONE_1]=07911 123456;''"

text \<open>
  The example plugin before its first status check, a host whose server does not answer,
  and a host on which the map file of the example cannot be modified.
\<close>

definition offline_plugin :: plugin where
  "offline_plugin =
     new_plugin DEFAULT_SETTINGS (example_vault example_map_raw) (Some example_file)
       \<lparr>text_before = ''Please '', selection = ''ask Jane Doe'', text_after = '' today.''\<rparr>"

definition down_host :: host where
  "down_host = example_host\<lparr>redact_reply := (\<lambda>url body deep. None)\<rparr>"

definition readonly_host :: host where
  "readonly_host = example_host\<lparr>io_fault := (\<lambda>op. op = Modify example_map_path)\<rparr>"

section \<open>What a save changes\<close>

text \<open>
  \<open>ensureFolder\<close> and \<open>saveVaultFile\<close> change nothing of the plugin but the vault, also
  when they throw. The folders \<open>ensureFolder\<close> creates have paths no longer than the folder
  path, so the file path itself is never among them: a save that throws leaves the entry
  at its path as it was, and a save that returns has put the content there.
\<close>

lemma createFolder_frame: "(snd (vault_createFolder h c w))\<lparr>vault := vault w\<rparr> = w"
  by (simp add: vault_createFolder_def split: option.splits)

lemma ensureFolder_loop_frame:
  "(snd (ensureFolder_loop h parts cur w))\<lparr>vault := vault w\<rparr> = w"
proof (induction parts arbitrary: cur w)
  case Nil
  show ?case by simp
next
  case (Cons part parts)
  define c where "c = (if cur \<noteq> [] then cur @ ''/'' @ part else part)"
  have unfold: "ensureFolder_loop h (part # parts) cur w =
     (case adapter_exists h c w of
           Inl e \<Rightarrow> (Inl e, w)
         | Inr ex \<Rightarrow>
             if \<not> ex then ensureFolder_loop h parts c (snd (vault_createFolder h c w))
             else ensureFolder_loop h parts c w)"
    unfolding c_def by (simp only: ensureFolder_loop.simps Let_def)
  show ?case
  proof (cases "adapter_exists h c w")
    case (Inl e)
    with unfold show ?thesis by simp
  next
    case (Inr ex)
    show ?thesis
    proof (cases ex)
      case True
      with Inr unfold Cons.IH show ?thesis by simp
    next
      case False
      define w1 where "w1 = snd (vault_createFolder h c w)"
      have w1: "w1\<lparr>vault := vault w\<rparr> = w"
        unfolding w1_def by (rule createFolder_frame)
      have "(snd (ensureFolder_loop h parts c w1))\<lparr>vault := vault w1\<rparr> = w1"
        by (rule Cons.IH)
      then have "((snd (ensureFolder_loop h parts c w1))\<lparr>vault := vault w1\<rparr>)\<lparr>vault := vault w\<rparr> = w"
        using w1 by simp
      then have "(snd (ensureFolder_loop h parts c w1))\<lparr>vault := vault w\<rparr> = w"
        by simp
      with Inr False unfold show ?thesis by (simp add: w1_def)
    qed
  qed
qed


lemma createFolder_touched:
  "vault (snd (vault_createFolder h c w)) q \<noteq> vault w q \<Longrightarrow> q = c"
  by (auto simp: vault_createFolder_def split: if_splits option.splits)

lemma ensureFolder_loop_touched:
  "vault (snd (ensureFolder_loop h parts cur w)) q \<noteq> vault w q \<Longrightarrow>
   length q + (if cur = [] then 1 else 0) \<le> length cur + sum_list (map (\<lambda>p. Suc (length p)) parts)"
proof (induction parts arbitrary: cur w)
  case Nil
  then show ?case by simp
next
  case (Cons part parts)
  define c where "c = (if cur \<noteq> [] then cur @ ''/'' @ part else part)"
  define S where "S = sum_list (map (\<lambda>p. Suc (length p)) parts)"
  have unfold: "ensureFolder_loop h (part # parts) cur w =
     (case adapter_exists h c w of
           Inl e \<Rightarrow> (Inl e, w)
         | Inr ex \<Rightarrow>
             if \<not> ex then ensureFolder_loop h parts c (snd (vault_createFolder h c w))
             else ensureFolder_loop h parts c w)"
    unfolding c_def by (simp only: ensureFolder_loop.simps Let_def)
  have len_c: "length c + (if cur = [] then 1 else 0) \<le> length cur + Suc (length part)"
    unfolding c_def by simp
  have goal_eq: "sum_list (map (\<lambda>p. Suc (length p)) (part # parts)) = Suc (length part) + S"
    unfolding S_def by simp
  have step: "length q + (if cur = [] then 1 else 0) \<le> length cur + (Suc (length part) + S)"
    if "vault (snd (ensureFolder_loop h parts c w')) q \<noteq> vault w' q" for w'
  proof -
    from Cons.IH [OF that] have "length q + (if c = [] then 1 else 0) \<le> length c + S"
      unfolding S_def .
    with len_c show ?thesis by (simp split: if_splits)
  qed
  have base: "length q + (if cur = [] then 1 else 0) \<le> length cur + (Suc (length part) + S)"
    if "q = c"
    using that len_c by simp
  show ?case
    unfolding goal_eq
  proof (cases "adapter_exists h c w")
    case (Inl e)
    with Cons.prems unfold show "length q + (if cur = [] then 1 else 0) \<le> length cur + (Suc (length part) + S)"
      by simp
  next
    case (Inr ex)
    show "length q + (if cur = [] then 1 else 0) \<le> length cur + (Suc (length part) + S)"
    proof (cases ex)
      case True
      with Inr Cons.prems unfold
      have "vault (snd (ensureFolder_loop h parts c w)) q \<noteq> vault w q" by simp
      then show ?thesis by (rule step)
    next
      case False
      define w1 where "w1 = snd (vault_createFolder h c w)"
      from Inr False Cons.prems unfold
      have neq: "vault (snd (ensureFolder_loop h parts c w1)) q \<noteq> vault w q"
        by (simp add: w1_def)
      show ?thesis
      proof (cases "vault w1 q = vault w q")
        case True
        with neq have "vault (snd (ensureFolder_loop h parts c w1)) q \<noteq> vault w1 q" by simp
        then show ?thesis by (rule step)
      next
        case False
        then have "q = c" unfolding w1_def by (rule createFolder_touched)
        then show ?thesis by (rule base)
      qed
    qed
  qed
qed

lemma sum_split: "sum_list (map (\<lambda>p. Suc (length p)) (split c s)) = Suc (length s)"
  by (induction s) (auto split: list.splits)

lemma sum_filter_le:
  "sum_list (map f (filter P xs)) \<le> sum_list (map (f :: 'a \<Rightarrow> nat) xs)"
  by (induction xs) auto

lemma lastIndexOf_less: "lastIndexOf c s = Some i \<Longrightarrow> i < length s"
  by (induction s arbitrary: i) (auto split: option.splits if_splits)

lemma folderPath_of_shorter: "folderPath_of p \<noteq> [] \<Longrightarrow> length (folderPath_of p) < length p"
  by (auto simp: folderPath_of_def split: option.splits dest: lastIndexOf_less)

lemma ensureFolder_frame: "(snd (ensureFolder h fp w))\<lparr>vault := vault w\<rparr> = w"
  by (simp add: ensureFolder_def ensureFolder_loop_frame)

lemma ensureFolder_touched:
  assumes "vault (snd (ensureFolder h fp w)) q \<noteq> vault w q"
  shows "length q \<le> length fp"
proof -
  define parts where "parts = filter (\<lambda>p. length p > 0) (split (CHR ''/'') fp)"
  from assms have "fp \<noteq> []" and neq: "vault (snd (ensureFolder_loop h parts [] w)) q \<noteq> vault w q"
    by (auto simp: ensureFolder_def parts_def split: if_splits)
  from ensureFolder_loop_touched [OF neq]
  have "length q + 1 \<le> sum_list (map (\<lambda>p. Suc (length p)) parts)" by simp
  also have "\<dots> \<le> sum_list (map (\<lambda>p. Suc (length p)) (split (CHR ''/'') fp))"
    unfolding parts_def by (rule sum_filter_le)
  also have "\<dots> = Suc (length fp)" by (rule sum_split)
  finally show ?thesis by simp
qed


lemma save_prefix_frame:
  "(snd (if fp \<noteq> [] then ensureFolder h fp w else (Inr (), w)))\<lparr>vault := vault w\<rparr> = w"
  by (simp add: ensureFolder_frame)

lemma save_prefix_keeps:
  "vault (snd (if folderPath_of p \<noteq> [] then ensureFolder h (folderPath_of p) w else (Inr (), w))) p
     = vault w p"
proof (cases "folderPath_of p \<noteq> []")
  case True
  have "vault (snd (ensureFolder h (folderPath_of p) w)) p = vault w p"
  proof (rule ccontr)
    assume "vault (snd (ensureFolder h (folderPath_of p) w)) p \<noteq> vault w p"
    then have "length p \<le> length (folderPath_of p)" by (rule ensureFolder_touched)
    with folderPath_of_shorter [OF True] show False by simp
  qed
  with True show ?thesis by simp
next
  case False
  then show ?thesis by simp
qed

lemma modify_frame: "(snd (vault_modify h p c w))\<lparr>vault := vault w\<rparr> = w"
  by (simp add: vault_modify_def split: option.splits abstract_file.splits)

lemma create_frame: "(snd (vault_create h p c w))\<lparr>vault := vault w\<rparr> = w"
  by (simp add: vault_create_def split: option.splits)

lemma saveVaultFile_cases:
  fixes h p c w
  defines "r \<equiv> (if folderPath_of p \<noteq> [] then ensureFolder h (folderPath_of p) w else (Inr (), w))"
  shows "saveVaultFile h p c w =
     (case fst r of
        Inl e \<Rightarrow> (Inl e, snd r)
      | Inr _ \<Rightarrow>
         (case vault w p of
            Some (File _) \<Rightarrow>
              (if io_fault h (Modify p) then (Inl IOFailed, snd r)
               else (Inr p, (snd r)\<lparr>vault := (vault (snd r))(p \<mapsto> File c)\<rparr>))
          | Some Folder \<Rightarrow> (Inl IOFailed, snd r)
          | None \<Rightarrow>
              (if io_fault h (Create p) then (Inl IOFailed, snd r)
               else (Inr p, (snd r)\<lparr>vault := (vault (snd r))(p \<mapsto> File c)\<rparr>))))"
proof -
  have keep: "vault (snd r) p = vault w p"
    unfolding r_def by (rule save_prefix_keeps)
  obtain a w1 where r: "r = (a, w1)" by (cases r)
  with keep have keep1: "vault w1 p = vault w p" by simp
  have "saveVaultFile h p c w =
     (case r of
           (Inl e, w1) \<Rightarrow> (Inl e, w1)
         | (Inr _, w1) \<Rightarrow>
             (case vault w1 p of
                Some (File _) \<Rightarrow>
                  (case vault_modify h p c w1 of
                     (Inl e, w2) \<Rightarrow> (Inl e, w2)
                   | (Inr _, w2) \<Rightarrow> (Inr p, w2))
              | _ \<Rightarrow>
                  (case vault_create h p c w1 of
                     (Inl e, w2) \<Rightarrow> (Inl e, w2)
                   | (Inr _, w2) \<Rightarrow> (Inr p, w2))))"
    unfolding r_def saveVaultFile_def Let_def ..
  also have "\<dots> = (case fst r of
        Inl e \<Rightarrow> (Inl e, snd r)
      | Inr _ \<Rightarrow>
         (case vault w p of
            Some (File _) \<Rightarrow>
              (if io_fault h (Modify p) then (Inl IOFailed, snd r)
               else (Inr p, (snd r)\<lparr>vault := (vault (snd r))(p \<mapsto> File c)\<rparr>))
          | Some Folder \<Rightarrow> (Inl IOFailed, snd r)
          | None \<Rightarrow>
              (if io_fault h (Create p) then (Inl IOFailed, snd r)
               else (Inr p, (snd r)\<lparr>vault := (vault (snd r))(p \<mapsto> File c)\<rparr>))))"
    using keep1 unfolding r
    by (simp add: vault_modify_def vault_create_def split: sum.splits option.splits abstract_file.splits)
  finally show ?thesis .
qed

lemma saveVaultFile_frame: "(snd (saveVaultFile h p c w))\<lparr>vault := vault w\<rparr> = w"
  by (simp add: saveVaultFile_cases ensureFolder_frame split: sum.splits option.splits abstract_file.splits)

lemma saveVaultFile_ok:
  "fst (saveVaultFile h p c w) = Inr x \<Longrightarrow> x = p \<and> vault (snd (saveVaultFile h p c w)) p = Some (File c)"
  by (simp add: saveVaultFile_cases split: sum.splits option.splits abstract_file.splits if_splits)

lemma saveVaultFile_fail:
  "fst (saveVaultFile h p c w) = Inl e \<Longrightarrow> vault (snd (saveVaultFile h p c w)) p = vault w p"
  using save_prefix_keeps [where p = p and h = h and w = w]
  by (simp add: saveVaultFile_cases split: sum.splits option.splits abstract_file.splits if_splits)

lemma frame_fields:
  assumes "w'\<lparr>vault := v\<rparr> = (w :: plugin)"
  shows "settings w' = settings w" "serverOnline w' = serverOnline w"
    "activeFile w' = activeFile w" "editor w' = editor w" "notices w' = notices w"
    "console w' = console w" "requests w' = requests w" "opened w' = opened w"
    "statusBarText w' = statusBarText w" "statusBarClasses w' = statusBarClasses w"
    "ribbonColor w' = ribbonColor w"
proof -
  show "settings w' = settings w" using arg_cong [OF assms, of settings] by simp
  show "serverOnline w' = serverOnline w" using arg_cong [OF assms, of serverOnline] by simp
  show "activeFile w' = activeFile w" using arg_cong [OF assms, of activeFile] by simp
  show "editor w' = editor w" using arg_cong [OF assms, of editor] by simp
  show "notices w' = notices w" using arg_cong [OF assms, of notices] by simp
  show "console w' = console w" using arg_cong [OF assms, of console] by simp
  show "requests w' = requests w" using arg_cong [OF assms, of requests] by simp
  show "opened w' = opened w" using arg_cong [OF assms, of opened] by simp
  show "statusBarText w' = statusBarText w" using arg_cong [OF assms, of statusBarText] by simp
  show "statusBarClasses w' = statusBarClasses w" using arg_cong [OF assms, of statusBarClasses] by simp
  show "ribbonColor w' = ribbonColor w" using arg_cong [OF assms, of ribbonColor] by simp
qed

lemmas saveVaultFile_fields = frame_fields [OF saveVaultFile_frame]

lemma merge_save_frame: "(snd (merge_save h f r w))\<lparr>vault := vault w\<rparr> = w"
  by (simp add: merge_save_def Let_def saveVaultFile_frame)

lemmas merge_save_fields = frame_fields [OF merge_save_frame]

lemma merge_save_ok:
  "fst (merge_save h f r w) = Inr x \<Longrightarrow>
   vault (snd (merge_save h f r w)) (mapPath_of w f) =
     Some (File (JSON_stringify h
       \<lparr>file_name = name f, created = now h,
        tokens = spread (existingTokens h (mapPath_of w f) w) (map_resp r)\<rparr>))"
  by (simp add: merge_save_def Let_def saveVaultFile_ok)

lemma merge_save_fail:
  "fst (merge_save h f r w) = Inl e \<Longrightarrow>
   vault (snd (merge_save h f r w)) (mapPath_of w f) = vault w (mapPath_of w f)"
  by (simp add: merge_save_def Let_def saveVaultFile_fail)

lemma redactSelectedText_detected:
  assumes "serverOnline w" and "selection (editor w) \<noteq> []"
    and "redact_reply h (serverUrl (settings w) @ ''/redact'') (selection (editor w))
           (deepScan (settings w)) = Some r"
  shows "redactSelectedText h (Some f) w =
     (case merge_save h f r
             (w\<lparr>requests := requests w @
                   [PostRedact (serverUrl (settings w) @ ''/redact'') (selection (editor w))
                      (deepScan (settings w))],
                editor := replaceSelection (redacted_text r) (editor w)\<rparr>) of
        (Inl e, w3) \<Rightarrow>
          (Inr (), Notice ''Redactor: selection redacted but map save failed.''
                     (console_error ''Redactor: failed to save map'' w3))
      | (Inr _, w3) \<Rightarrow> (Inr (), Notice (selectionSummary (entity_counts r)) w3))"
  using assms
  by (simp add: redactSelectedText_def assertOnline_def requestUrl_redact_def Let_def)

lemma read_tokens_cong:
  "vault w' = vault w \<Longrightarrow> read_tokens h p w' = read_tokens h p w"
  by (simp add: read_tokens_def vault_read_def)

lemma existingTokens_cong:
  assumes "vault w' = vault w"
  shows "existingTokens h p w' = existingTokens h p w"
  using assms read_tokens_cong [OF assms, of h p]
  by (simp add: existingTokens_def split: option.splits abstract_file.splits)

lemma ensureFolder_loop_ok:
  assumes "\<forall>q. \<not> io_fault h (Exists q)"
  shows "fst (ensureFolder_loop h parts cur w) = Inr ()"
proof (induction parts arbitrary: cur w)
  case Nil
  show ?case by simp
next
  case (Cons part parts)
  define c where "c = (if cur \<noteq> [] then cur @ ''/'' @ part else part)"
  have unfold: "ensureFolder_loop h (part # parts) cur w =
     (case adapter_exists h c w of
           Inl e \<Rightarrow> (Inl e, w)
         | Inr ex \<Rightarrow>
             if \<not> ex then ensureFolder_loop h parts c (snd (vault_createFolder h c w))
             else ensureFolder_loop h parts c w)"
    unfolding c_def by (simp only: ensureFolder_loop.simps Let_def)
  from assms have "\<exists>ex. adapter_exists h c w = Inr ex"
    by (cases "vault w c") (auto simp add: adapter_exists_def)
  then obtain ex where "adapter_exists h c w = Inr ex" ..
  with unfold Cons.IH show ?case by simp
qed

lemma saveVaultFile_modify_ok:
  assumes "vault w p = Some (File c0)" and "\<not> io_fault h (Modify p)"
    and "\<forall>q. \<not> io_fault h (Exists q)"
  shows "fst (saveVaultFile h p c w) = Inr p"
  using assms ensureFolder_loop_ok [OF assms(3)]
  by (simp add: saveVaultFile_cases ensureFolder_def)

lemma redactSelectedText_outcome:
  fixes h f w r
  defines "mp \<equiv> mapPath_of w f"
  defines "w2 \<equiv> w\<lparr>requests := requests w @
                   [PostRedact (serverUrl (settings w) @ ''/redact'') (selection (editor w))
                      (deepScan (settings w))],
                editor := replaceSelection (redacted_text r) (editor w)\<rparr>"
  defines "w' \<equiv> snd (redactSelectedText h (Some f) w)"
  assumes "serverOnline w" and "selection (editor w) \<noteq> []"
    and "redact_reply h (serverUrl (settings w) @ ''/redact'') (selection (editor w))
           (deepScan (settings w)) = Some r"
  shows "((\<exists>x. fst (merge_save h f r w2) = Inr x) \<and>
          notices w' = notices w @ [selectionSummary (entity_counts r)] \<and>
          console w' = console w \<and>
          vault w' mp = Some (File (JSON_stringify h
             \<lparr>file_name = name f, created = now h,
              tokens = spread (existingTokens h mp w) (map_resp r)\<rparr>))) \<or>
         ((\<exists>e. fst (merge_save h f r w2) = Inl e) \<and>
          notices w' = notices w @ [''Redactor: selection redacted but map save failed.''] \<and>
          console w' = console w @ [''Redactor: failed to save map''] \<and>
          vault w' mp = vault w mp)"
proof (cases "fst (merge_save h f r w2)")
  case (Inl e)
  define w3 where "w3 = snd (merge_save h f r w2)"
  have run: "redactSelectedText h (Some f) w =
      (Inr (), Notice ''Redactor: selection redacted but map save failed.''
                 (console_error ''Redactor: failed to save map'' w3))"
    using assms(4-6) Inl unfolding w2_def w3_def
    by (auto simp: redactSelectedText_detected split: prod.splits)
  have mp2: "mapPath_of w2 f = mp" by (simp add: mp_def w2_def mapPath_of_def)
  from merge_save_fail [OF Inl] mp2
  have v: "vault w3 mp = vault w mp" by (simp add: w3_def w2_def)
  have n: "notices w3 = notices w" unfolding w3_def by (simp add: merge_save_fields w2_def)
  have c: "console w3 = console w" unfolding w3_def by (simp add: merge_save_fields w2_def)
  from run v n c Inl show ?thesis by (simp add: w'_def Notice_def console_error_def)
next
  case (Inr x)
  define w3 where "w3 = snd (merge_save h f r w2)"
  have run: "redactSelectedText h (Some f) w =
      (Inr (), Notice (selectionSummary (entity_counts r)) w3)"
    using assms(4-6) Inr unfolding w2_def w3_def
    by (auto simp: redactSelectedText_detected split: prod.splits)
  have mp2: "mapPath_of w2 f = mp" by (simp add: mp_def w2_def mapPath_of_def)
  have M2: "existingTokens h mp w2 = existingTokens h mp w"
    by (rule existingTokens_cong) (simp add: w2_def)
  from merge_save_ok [OF Inr] mp2 M2
  have v: "vault w3 mp = Some (File (JSON_stringify h
             \<lparr>file_name = name f, created = now h,
              tokens = spread (existingTokens h mp w) (map_resp r)\<rparr>))"
    by (simp add: w3_def)
  have n: "notices w3 = notices w" unfolding w3_def by (simp add: merge_save_fields w2_def)
  have c: "console w3 = console w" unfolding w3_def by (simp add: merge_save_fields w2_def)
  from run v n c Inr show ?thesis by (simp add: w'_def Notice_def)
qed

lemma createFolder_keeps:
  "vault w q = Some a \<Longrightarrow> vault (snd (vault_createFolder h c w)) q = Some a"
  by (auto simp: vault_createFolder_def split: option.splits)

lemma ensureFolder_loop_keeps:
  "vault w q = Some a \<Longrightarrow> vault (snd (ensureFolder_loop h parts cur w)) q = Some a"
proof (induction parts arbitrary: cur w)
  case Nil
  then show ?case by simp
next
  case (Cons part parts)
  define c where "c = (if cur \<noteq> [] then cur @ ''/'' @ part else part)"
  have unfold: "ensureFolder_loop h (part # parts) cur w =
     (case adapter_exists h c w of
           Inl e \<Rightarrow> (Inl e, w)
         | Inr ex \<Rightarrow>
             if \<not> ex then ensureFolder_loop h parts c (snd (vault_createFolder h c w))
             else ensureFolder_loop h parts c w)"
    unfolding c_def by (simp only: ensureFolder_loop.simps Let_def)
  have w1: "vault (snd (vault_createFolder h c w)) q = Some a"
    using Cons.prems by (rule createFolder_keeps)
  show ?case
  proof (cases "adapter_exists h c w")
    case (Inl e)
    with unfold Cons.prems show ?thesis by simp
  next
    case (Inr ex)
    with unfold Cons.IH [OF Cons.prems] Cons.IH [OF w1] show ?thesis by simp
  qed
qed

lemma saveVaultFile_keeps_other:
  assumes "vault w q = Some a" and "q \<noteq> p"
  shows "vault (snd (saveVaultFile h p c w)) q = Some a"
proof -
  have "vault (snd (if folderPath_of p \<noteq> [] then ensureFolder h (folderPath_of p) w
                    else (Inr (), w))) q = Some a"
    using assms(1) by (simp add: ensureFolder_def ensureFolder_loop_keeps)
  with assms(2) show ?thesis
    by (auto simp: saveVaultFile_cases split: sum.splits option.splits abstract_file.splits if_splits)
qed

lemma saveVaultFile_nofault_ok:
  assumes "\<forall>op. \<not> io_fault h op" and "vault w p \<noteq> Some Folder"
  shows "fst (saveVaultFile h p c w) = Inr p"
proof -
  from assms(1) have "\<forall>q. \<not> io_fault h (Exists q)" by simp
  from ensureFolder_loop_ok [OF this] assms show ?thesis
    by (simp add: saveVaultFile_cases ensureFolder_def split: option.splits abstract_file.splits)
qed

lemma result_case:
  "(case x of (Inl e, w) \<Rightarrow> A e w | (Inr v, w) \<Rightarrow> B v w) =
   (case fst x of Inl e \<Rightarrow> A e (snd x) | Inr v \<Rightarrow> B v (snd x))"
  by (cases x) (simp split: sum.splits)

lemma openFile_fields:
  "vault (snd (openFile h p w)) = vault w" "notices (snd (openFile h p w)) = notices w"
  by (simp_all add: openFile_def)

lemma redactFile_save_unfold:
  fixes h f w r
  defines "s1 \<equiv> saveVaultFile h (redactFolder (settings w) @ ''/'' @ name f) (redacted_text r) w"
  defines "s2 \<equiv> saveVaultFile h (mapPath_of w f)
                   (JSON_stringify h \<lparr>file_name = name f, created = now h, tokens = map_resp r\<rparr>)
                   (snd s1)"
  shows "redactFile_save h f r w =
     (case fst s1 of
        Inl e \<Rightarrow> (Inl e, snd s1)
      | Inr redactedFile \<Rightarrow>
          (case fst s2 of
             Inl e \<Rightarrow> (Inl e, snd s2)
           | Inr _ \<Rightarrow>
               openFile h redactedFile
                 (Notice (buildCountSummary (entity_counts r)) (snd s2))))"
proof -
  have mp1: "mapPath_of (snd s1) f = mapPath_of w f"
    unfolding s1_def by (simp add: mapPath_of_def saveVaultFile_fields)
  show ?thesis
    unfolding redactFile_save_def Let_def result_case
    unfolding s1_def [symmetric] mp1 s2_def [symmetric]
    by (rule refl)
qed

lemma redactFile_save_outcome:
  fixes h f w r
  defines "mp \<equiv> mapPath_of w f"
  defines "fresh \<equiv> JSON_stringify h \<lparr>file_name = name f, created = now h, tokens = map_resp r\<rparr>"
  defines "w' \<equiv> snd (redactFile_save h f r w)"
  shows "(fst (redactFile_save h f r w) = Inr () \<longrightarrow>
            vault w' mp = Some (File fresh) \<and>
            notices w' = notices w @ [buildCountSummary (entity_counts r)]) \<and>
         ((\<exists>e. fst (redactFile_save h f r w) = Inl e) \<longrightarrow>
            notices w' = notices w \<or>
            vault w' mp = Some (File fresh) \<and>
            notices w' = notices w @ [buildCountSummary (entity_counts r)])"
proof -
  define s1 where "s1 = saveVaultFile h (redactFolder (settings w) @ ''/'' @ name f) (redacted_text r) w"
  define s2 where "s2 = saveVaultFile h mp fresh (snd s1)"
  note unfold = redactFile_save_unfold [of h f r w, folded mp_def fresh_def s1_def, folded s2_def]
  have n1: "notices (snd s1) = notices w" unfolding s1_def by (simp add: saveVaultFile_fields)
  have n2: "notices (snd s2) = notices w" unfolding s2_def by (simp add: saveVaultFile_fields n1)
  show ?thesis
  proof (cases "fst s1")
    case (Inl e)
    with unfold n1 show ?thesis by (simp add: w'_def)
  next
    case s1ok: (Inr x1)
    show ?thesis
    proof (cases "fst s2")
      case (Inl e)
      with s1ok unfold n2 show ?thesis by (simp add: w'_def)
    next
      case s2ok: (Inr x2)
      from saveVaultFile_ok [OF s2ok [unfolded s2_def]]
      have "vault (snd s2) mp = Some (File fresh)" by (simp add: s2_def)
      with s1ok s2ok unfold n2 show ?thesis
        by (simp add: w'_def openFile_fields Notice_def)
    qed
  qed
qed

lemma redactFile_save_nofault:
  assumes nofault: "\<forall>op. \<not> io_fault h op"
    and rp: "vault w (redactFolder (settings w) @ ''/'' @ name f) \<noteq> Some Folder"
    and mp: "vault w (mapPath_of w f) = Some (File old)"
  shows "fst (redactFile_save h f r w) = Inr ()"
proof -
  define rp where "rp = redactFolder (settings w) @ ''/'' @ name f"
  define mp where "mp = mapPath_of w f"
  define fresh where
    "fresh = JSON_stringify h \<lparr>file_name = name f, created = now h, tokens = map_resp r\<rparr>"
  define s1 where "s1 = saveVaultFile h rp (redacted_text r) w"
  define s2 where "s2 = saveVaultFile h mp fresh (snd s1)"
  note unfold = redactFile_save_unfold [of h f r w, folded rp_def mp_def fresh_def,
      folded s1_def, folded s2_def]
  have s1ok: "fst s1 = Inr rp"
    unfolding s1_def using nofault assms(2) by (simp add: saveVaultFile_nofault_ok rp_def)
  have "vault (snd s1) mp \<noteq> Some Folder"
  proof (cases "mp = rp")
    case True
    from saveVaultFile_ok [OF s1ok [unfolded s1_def]] True show ?thesis by (simp add: s1_def)
  next
    case False
    from saveVaultFile_keeps_other [OF assms(3) [folded mp_def] False]
    show ?thesis by (simp add: s1_def)
  qed
  then have s2ok: "fst s2 = Inr mp"
    unfolding s2_def using nofault by (simp add: saveVaultFile_nofault_ok)
  from unfold s1ok s2ok nofault show ?thesis by (simp add: openFile_def)
qed

lemma redactCurrentNote_offline:
  "\<not> serverOnline w \<Longrightarrow>
   requests (snd (redactCurrentNote h w)) = requests w \<and>
   vault (snd (redactCurrentNote h w)) = vault w"
  by (simp add: redactCurrentNote_def redactFile_def assertOnline_def Notice_def
      split: option.splits)

text \<open>
  A map file that holds \<open>null\<close> parses, so restoration goes on to read the note; the read of
  \<open>mapData.tokens\<close> then throws inside the \<open>try\<close> block of the request, and the plugin
  reports the server as offline without having sent anything.
\<close>

lemma restore_map_null:
  assumes "serverOnline w" and "activeFile w = Some f"
    and "vault w (mapPath_of w f) = Some (File raw)"
    and "\<not> io_fault h (Read (mapPath_of w f))"
    and "JSON_parse h raw = Some JsonNull"
    and "vault_read h (path f) w = Inr body"
  shows "requests (snd (restoreCurrentNote h w)) = requests w \<and>
         vault (snd (restoreCurrentNote h w)) = vault w \<and>
         notices (snd (restoreCurrentNote h w)) = notices w @ [offline_notice] \<and>
         serverOnline (snd (restoreCurrentNote h w)) = False"
  using assms
  by (simp add: restoreCurrentNote_def assertOnline_def read_mapData_def vault_read_def
      requestUrl_restore_def request_failed_def refreshStatusUI_def Notice_def console_error_def
      Let_def)

section \<open>The example inputs, evaluated\<close>

lemmas example_defs = example_plugin_def fresh_plugin_def example_vault_def new_plugin_def
  DEFAULT_SETTINGS_def example_file_def example_map_path_def example_host_def example_parse_def
  example_map_raw_def example_tokens_def example_stringify_def phone_response_def
  person_response_def document_response_def merged_map_raw_def

lemmas run_defs = redactSelectedText_def redactFile_def restoreCurrentNote_def redactFile_save_def
  assertOnline_def requestUrl_redact_def merge_save_def existingTokens_def read_tokens_def
  read_mapData_def vault_read_def spread_def saveVaultFile_def folderPath_of_def ensureFolder_def
  adapter_exists_def vault_createFolder_def vault_modify_def vault_create_def openFile_def
  Notice_def console_error_def selectionSummary_def buildCountSummary_def show_int_def
  show_nat.simps replaceSelection_def mapPath_of_def LABEL_DISPLAY_def Let_def

lemma example_online: "serverOnline (example_plugin sel raw)"
  by (simp add: example_plugin_def)

lemma example_selection: "selection (editor (example_plugin sel raw)) = sel"
  by (simp add: example_plugin_def new_plugin_def)

lemma example_mapPath: "mapPath_of (example_plugin sel raw) example_file = example_map_path"
  by (simp add: example_defs mapPath_of_def)

lemma example_url: "serverUrl (settings (example_plugin sel raw)) @ ''/redact'' =
    ''http://localhost:8765/redact''"
  by (simp add: example_defs)

lemma example_deep: "deepScan (settings (example_plugin sel raw)) = False"
  by (simp add: example_defs)

lemma example_map_file: "vault (example_plugin sel raw) example_map_path = Some (File raw)"
  by (simp add: example_plugin_def new_plugin_def example_vault_def)

lemma example_existing:
  "existingTokens example_host example_map_path (example_plugin sel example_map_raw) = example_tokens"
  by (simp add: existingTokens_def example_map_file read_tokens_def vault_read_def
      example_host_def example_parse_def)

lemma example_reply_phone:
  "redact_reply example_host ''http://localhost:8765/redact'' ''John Smith on 07911 123456'' False
     = Some phone_response"
  by (simp add: example_host_def)

lemma example_reply_person:
  "redact_reply example_host ''http://localhost:8765/redact'' ''ask Jane Doe'' False
     = Some person_response"
  by (simp add: example_host_def)

lemma example_modify_ok:
  assumes "vault w example_map_path = Some (File raw)"
  shows "fst (saveVaultFile example_host example_map_path c w) = Inr example_map_path"
  using assms by (intro saveVaultFile_modify_ok) (simp_all add: example_host_def)

lemma example_merge_save_ok:
  "fst (merge_save example_host example_file r
          ((example_plugin sel raw)\<lparr>requests := rq, editor := ed\<rparr>)) = Inr example_map_path"
proof -
  have "mapPath_of ((example_plugin sel raw)\<lparr>requests := rq, editor := ed\<rparr>) example_file
          = example_map_path"
    using example_mapPath [of sel raw] by (simp add: mapPath_of_def)
  moreover have "vault ((example_plugin sel raw)\<lparr>requests := rq, editor := ed\<rparr>) example_map_path
          = Some (File raw)"
    by (simp add: example_map_file)
  ultimately show ?thesis
    by (simp add: merge_save_def Let_def example_modify_ok)
qed

lemma example_notices: "notices (example_plugin sel raw) = []"
  and example_console: "console (example_plugin sel raw) = []"
  by (simp_all add: example_plugin_def new_plugin_def)

lemma example_inline_run:
  assumes "sel \<noteq> []"
    and "redact_reply example_host ''http://localhost:8765/redact'' sel False = Some r"
  shows "notices (snd (redactSelectedText example_host (Some example_file) (example_plugin sel raw)))
           = [selectionSummary (entity_counts r)]"
    and "console (snd (redactSelectedText example_host (Some example_file) (example_plugin sel raw)))
           = []"
proof -
  let ?w = "example_plugin sel raw"
  have h1: "serverOnline ?w" by (rule example_online)
  have h2: "selection (editor ?w) \<noteq> []" using assms(1) by (simp add: example_selection)
  have h3: "redact_reply example_host (serverUrl (settings ?w) @ ''/redact'')
      (selection (editor ?w)) (deepScan (settings ?w)) = Some r"
    using assms(2) by (simp add: example_url example_deep example_selection)
  note out = redactSelectedText_outcome [OF h1 h2 h3, of example_file]
  have ok: "fst (merge_save example_host example_file r
       (?w\<lparr>requests := requests ?w @
             [PostRedact (serverUrl (settings ?w) @ ''/redact'') (selection (editor ?w))
                (deepScan (settings ?w))],
           editor := replaceSelection (redacted_text r) (editor ?w)\<rparr>)) = Inr example_map_path"
    by (rule example_merge_save_ok)
  from out ok
  show "notices (snd (redactSelectedText example_host (Some example_file) ?w))
           = [selectionSummary (entity_counts r)]"
    by (simp add: example_notices)
  from out ok
  show "console (snd (redactSelectedText example_host (Some example_file) ?w)) = []"
    by (simp add: example_console)
qed

lemma summary_one: "selectionSummary (entity_counts person_response) = ''Redacted 1 entities in selection''"
  by (simp add: selectionSummary_def person_response_def show_int_def show_nat.simps)

lemma summary_two: "selectionSummary (entity_counts phone_response) = ''Redacted 2 entities in selection''"
  by (simp add: selectionSummary_def phone_response_def show_int_def show_nat.simps)

lemma example_read_note:
  "vault_read example_host (path example_file) (example_plugin sel raw)
     = Inr ''Contact John Smith at john@acme.com''"
  by (simp add: vault_read_def example_host_def example_file_def example_plugin_def
      new_plugin_def example_vault_def example_map_path_def)

lemma example_reply_document:
  "redact_reply example_host ''http://localhost:8765/redact''
     ''Contact John Smith at john@acme.com'' False = Some document_response"
  by (simp add: example_host_def)

lemma saveVaultFile_modify_fault:
  assumes "vault w p = Some (File c0)" and "io_fault h (Modify p)"
    and "\<forall>q. \<not> io_fault h (Exists q)"
  shows "fst (saveVaultFile h p c w) = Inl IOFailed"
  using assms ensureFolder_loop_ok [OF assms(3)]
  by (simp add: saveVaultFile_cases ensureFolder_def)

section \<open>The claims\<close>

subsection \<open>C1: the inline merge is monotonic\<close>

text \<open>
  Claim C1. Let the map file of the note hold a content that reads and parses to a map file
  with the tokens \<open>M\<close>, and let \<open>F\<close> be the fragment of the reply. When inline redaction
  has its reply and its map save returns, the map file holds the name of the note, the time
  and the tokens \<open>M ++ F\<close>, and the keys of \<open>M ++ F\<close> are exactly the keys of \<open>M\<close> and the
  keys of \<open>F\<close>: no key of \<open>M\<close> is missing from the saved map, a key both maps give the same
  value keeps that value, and a key \<open>F\<close> does not have keeps what \<open>M\<close> has for it.
\<close>

theorem inline_merge_monotonic:
  fixes h f w r M raw
  defines "mp \<equiv> mapPath_of w f"
  defines "F \<equiv> map_resp r"
  defines "w2 \<equiv> w\<lparr>requests := requests w @
                   [PostRedact (serverUrl (settings w) @ ''/redact'') (selection (editor w))
                      (deepScan (settings w))],
                editor := replaceSelection (redacted_text r) (editor w)\<rparr>"
  assumes "serverOnline w" and "selection (editor w) \<noteq> []"
    and "redact_reply h (serverUrl (settings w) @ ''/redact'') (selection (editor w))
           (deepScan (settings w)) = Some r"
    and "vault w mp = Some (File raw)" and "\<not> io_fault h (Read mp)"
    and "JSON_parse h raw = Some (JsonValue (Some M))"
    and "fst (merge_save h f r w2) = Inr x"
  shows "vault (snd (redactSelectedText h (Some f) w)) mp =
           Some (File (JSON_stringify h
             \<lparr>file_name = name f, created = now h, tokens = M ++ F\<rparr>)) \<and>
         dom (M ++ F) = dom M \<union> dom F \<and>
         dom M \<subseteq> dom (M ++ F) \<and>
         (\<forall>k v. M k = Some v \<and> F k = Some v \<longrightarrow> (M ++ F) k = Some v) \<and>
         (\<forall>k. k \<notin> dom F \<longrightarrow> (M ++ F) k = M k)"
proof -
  have run: "redactSelectedText h (Some f) w =
      (Inr (), Notice (selectionSummary (entity_counts r)) (snd (merge_save h f r w2)))"
    using assms(4-6,10) unfolding w2_def
    by (auto simp: redactSelectedText_detected split: prod.splits)
  have mp2: "mapPath_of w2 f = mp" by (simp add: mp_def w2_def mapPath_of_def)
  have M1: "existingTokens h mp w = M"
    using assms(7-9) by (simp add: existingTokens_def read_tokens_def vault_read_def)
  have M2: "existingTokens h mp w2 = M"
    unfolding M1 [symmetric] by (rule existingTokens_cong) (simp add: w2_def)
  from merge_save_ok [OF assms(10)] mp2 M2
  have "vault (snd (merge_save h f r w2)) mp =
     Some (File (JSON_stringify h \<lparr>file_name = name f, created = now h, tokens = M ++ F\<rparr>))"
    by (simp add: F_def spread_def)
  with run have saved: "vault (snd (redactSelectedText h (Some f) w)) mp =
           Some (File (JSON_stringify h
             \<lparr>file_name = name f, created = now h, tokens = M ++ F\<rparr>))"
    by (simp add: Notice_def)
  have keys: "dom (M ++ F) = dom M \<union> dom F" by auto
  have same: "\<forall>k v. M k = Some v \<and> F k = Some v \<longrightarrow> (M ++ F) k = Some v"
    by (simp add: map_add_def)
  have kept: "\<forall>k. k \<notin> dom F \<longrightarrow> (M ++ F) k = M k"
    by (simp add: map_add_def domIff)
  from saved keys same kept show ?thesis by simp
qed

text \<open>
  The second scenario of the specification, with a person the map file already has: the
  merged map file holds the three tokens.
\<close>

theorem inline_merge_monotonic_witness:
  "serverOnline (example_plugin ''John Smith on 07911 123456'' example_map_raw) \<and>
   selection (editor (example_plugin ''John Smith on 07911 123456'' example_map_raw)) \<noteq> [] \<and>
   redact_reply example_host ''http://localhost:8765/redact'' ''John Smith on 07911 123456'' False
     = Some phone_response \<and>
   vault (example_plugin ''John Smith on 07911 123456'' example_map_raw) example_map_path
     = Some (File example_map_raw) \<and>
   \<not> io_fault example_host (Read example_map_path) \<and>
   JSON_parse example_host example_map_raw = Some (JsonValue (Some example_tokens)) \<and>
   vault (snd (redactSelectedText example_host (Some example_file)
                 (example_plugin ''John Smith on 07911 123456'' example_map_raw)))
     example_map_path = Some (File merged_map_raw) \<and>
   dom (example_tokens ++ map_resp phone_response) =
     {''[PERSON_1]'', ''[EMAIL_1]'', ''[PHONE_1]''} \<and>
   example_tokens ''[PERSON_1]'' = Some ''John Smith'' \<and>
   map_resp phone_response ''[PERSON_1]'' = Some ''John Smith'' \<and>
   (example_tokens ++ map_resp phone_response) ''[PERSON_1]'' = Some ''John Smith'' \<and>
   ''[EMAIL_1]'' \<notin> dom (map_resp phone_response) \<and>
   (example_tokens ++ map_resp phone_response) ''[EMAIL_1]'' = Some ''john@acme.com''"
proof -
  let ?w = "example_plugin ''John Smith on 07911 123456'' example_map_raw"
  have h1: "serverOnline ?w" by (rule example_online)
  have h2: "selection (editor ?w) \<noteq> []" by (simp add: example_selection)
  have h3: "redact_reply example_host (serverUrl (settings ?w) @ ''/redact'')
      (selection (editor ?w)) (deepScan (settings ?w)) = Some phone_response"
    by (simp add: example_url example_deep example_selection example_reply_phone)
  have v: "vault ?w example_map_path = Some (File example_map_raw)" by (rule example_map_file)
  have h4: "vault ?w (mapPath_of ?w example_file) = Some (File example_map_raw)"
    by (simp add: example_mapPath example_map_file)
  have g: "\<not> io_fault example_host (Read example_map_path)" by (simp add: example_host_def)
  have h5: "\<not> io_fault example_host (Read (mapPath_of ?w example_file))"
    by (simp add: example_mapPath g)
  have h6: "JSON_parse example_host example_map_raw = Some (JsonValue (Some example_tokens))"
    by (simp add: example_host_def example_parse_def)
  note inst = inline_merge_monotonic [OF h1 h2 h3 h4 h5 h6 example_merge_save_ok,
      unfolded example_mapPath]
  have p: "example_tokens ''[PERSON_1]'' = Some ''John Smith''"
    and q: "map_resp phone_response ''[PERSON_1]'' = Some ''John Smith''"
    and e: "''[EMAIL_1]'' \<notin> dom (map_resp phone_response)"
    and m: "example_tokens ''[EMAIL_1]'' = Some ''john@acme.com''"
    by (simp_all add: example_tokens_def phone_response_def)
  have d: "dom example_tokens \<union> dom (map_resp phone_response) =
      {''[PERSON_1]'', ''[EMAIL_1]'', ''[PHONE_1]''}"
    by (auto simp: example_tokens_def phone_response_def)
  have s: "example_stringify \<lparr>file_name = ''note.md'', created = ''2024-06-01T12:00:00.000Z'',
      tokens = example_tokens ++ map_resp phone_response\<rparr> = merged_map_raw"
    by (simp add: example_stringify_def example_tokens_def phone_response_def
        merged_map_raw_def)
  from inst have "vault (snd (redactSelectedText example_host (Some example_file) ?w))
     example_map_path = Some (File merged_map_raw)"
    by (simp add: example_host_def example_file_def s)
  with inst h1 h2 example_reply_phone v g h6 p q e m d show ?thesis
    by simp
qed

subsection \<open>C2: a conflict between the map and the fragment\<close>

text \<open>
  Claim C2, as amended. When the existing map and the fragment give one token two different
  values, inline redaction keeps the value of the fragment and says nothing about it: either
  the map is saved with the fragment's value for the token, the one notice is the entity
  count and nothing is logged, or the save fails, which is the one thing reported, and the
  map file is as before.
\<close>

theorem inline_conflict_last_writer_wins:
  fixes h f w r
  defines "mp \<equiv> mapPath_of w f"
  defines "w' \<equiv> snd (redactSelectedText h (Some f) w)"
  assumes "serverOnline w" and "selection (editor w) \<noteq> []"
    and "redact_reply h (serverUrl (settings w) @ ''/redact'') (selection (editor w))
           (deepScan (settings w)) = Some r"
    and "existingTokens h mp w k = Some v" and "map_resp r k = Some v'" and "v \<noteq> v'"
  shows "(notices w' = notices w @ [selectionSummary (entity_counts r)] \<and>
          console w' = console w \<and>
          vault w' mp = Some (File (JSON_stringify h
             \<lparr>file_name = name f, created = now h,
              tokens = spread (existingTokens h mp w) (map_resp r)\<rparr>)) \<and>
          spread (existingTokens h mp w) (map_resp r) k = Some v') \<or>
         (notices w' = notices w @ [''Redactor: selection redacted but map save failed.''] \<and>
          console w' = console w @ [''Redactor: failed to save map''] \<and>
          vault w' mp = vault w mp)"
proof -
  have "spread (existingTokens h mp w) (map_resp r) k = Some v'"
    using assms(7) by (simp add: spread_def)
  with redactSelectedText_outcome [OF assms(3-5), of f] show ?thesis
    unfolding mp_def w'_def by blast
qed

text \<open>
  A second person in the note: the server numbers its tokens afresh on every call, so the
  fragment gives \<open>[PERSON_1]\<close> another value than the map has, and the saved map has lost
  the first person.
\<close>

theorem inline_conflict_last_writer_wins_witness:
  "serverOnline (example_plugin ''ask Jane Doe'' example_map_raw) \<and>
   selection (editor (example_plugin ''ask Jane Doe'' example_map_raw)) \<noteq> [] \<and>
   redact_reply example_host ''http://localhost:8765/redact'' ''ask Jane Doe'' False
     = Some person_response \<and>
   existingTokens example_host example_map_path (example_plugin ''ask Jane Doe'' example_map_raw)
     ''[PERSON_1]'' = Some ''John Smith'' \<and>
   map_resp person_response ''[PERSON_1]'' = Some ''Jane Doe'' \<and>
   ''John Smith'' \<noteq> ''Jane Doe'' \<and>
   vault (snd (redactSelectedText example_host (Some example_file)
                 (example_plugin ''ask Jane Doe'' example_map_raw))) example_map_path
     = Some (File overwritten_map_raw) \<and>
   spread example_tokens (map_resp person_response) ''[PERSON_1]'' = Some ''Jane Doe''"
proof -
  let ?w = "example_plugin ''ask Jane Doe'' example_map_raw"
  let ?w' = "snd (redactSelectedText example_host (Some example_file) ?w)"
  have h1: "serverOnline ?w" by (rule example_online)
  have h2: "selection (editor ?w) \<noteq> []" by (simp add: example_selection)
  have h3: "redact_reply example_host (serverUrl (settings ?w) @ ''/redact'')
      (selection (editor ?w)) (deepScan (settings ?w)) = Some person_response"
    by (simp add: example_url example_deep example_selection example_reply_person)
  have h4: "existingTokens example_host (mapPath_of ?w example_file) ?w ''[PERSON_1]''
      = Some ''John Smith''"
    by (simp add: example_mapPath example_existing example_tokens_def)
  have h5: "map_resp person_response ''[PERSON_1]'' = Some ''Jane Doe''"
    by (simp add: person_response_def)
  have h6: "''John Smith'' \<noteq> ''Jane Doe''" by simp
  note inst = inline_conflict_last_writer_wins [OF h1 h2 h3 h4 h5 h6,
      unfolded example_mapPath example_existing]
  have n: "notices ?w' = [''Redacted 1 entities in selection'']"
    using example_inline_run(1) [OF _ example_reply_person, of example_map_raw]
    by (simp add: summary_one)
  have s: "example_stringify \<lparr>file_name = ''note.md'', created = ''2024-06-01T12:00:00.000Z'',
      tokens = spread example_tokens (map_resp person_response)\<rparr> = overwritten_map_raw"
    by (simp add: example_stringify_def spread_def example_tokens_def person_response_def
        overwritten_map_raw_def)
  from inst n have "vault ?w' example_map_path = Some (File overwritten_map_raw) \<and>
      spread example_tokens (map_resp person_response) ''[PERSON_1]'' = Some ''Jane Doe''"
    by (simp add: example_notices example_host_def example_file_def s)
  with h1 h2 example_reply_person h4 h5 show ?thesis
    by (simp add: example_mapPath)
qed

text \<open>
  Claim C2 as the specification states it, that such a conflict is surfaced at least as a
  warning, fails on this run: the map and the fragment disagree on \<open>[PERSON_1]\<close>, and all
  the user gets is the entity count; the console stays empty. The same selection in a note
  that has no map, where nothing can conflict, gives the same notices and the same console.
\<close>

theorem inline_conflict_silent_counterexample:
  "existingTokens example_host example_map_path (example_plugin ''ask Jane Doe'' example_map_raw)
     ''[PERSON_1]'' = Some ''John Smith'' \<and>
   map_resp person_response ''[PERSON_1]'' = Some ''Jane Doe'' \<and>
   notices (snd (redactSelectedText example_host (Some example_file)
                   (example_plugin ''ask Jane Doe'' example_map_raw)))
     = [''Redacted 1 entities in selection''] \<and>
   console (snd (redactSelectedText example_host (Some example_file)
                   (example_plugin ''ask Jane Doe'' example_map_raw))) = [] \<and>
   vault (fresh_plugin ''ask Jane Doe'') example_map_path = None \<and>
   notices (snd (redactSelectedText example_host (Some example_file)
                   (fresh_plugin ''ask Jane Doe'')))
     = [''Redacted 1 entities in selection''] \<and>
   console (snd (redactSelectedText example_host (Some example_file)
                   (fresh_plugin ''ask Jane Doe''))) = []"
proof -
  let ?w' = "snd (redactSelectedText example_host (Some example_file)
                   (example_plugin ''ask Jane Doe'' example_map_raw))"
  let ?v' = "snd (redactSelectedText example_host (Some example_file)
                   (fresh_plugin ''ask Jane Doe''))"
  have n: "notices ?w' = [''Redacted 1 entities in selection'']"
    using example_inline_run(1) [OF _ example_reply_person, of example_map_raw]
    by (simp add: summary_one)
  have c: "console ?w' = []"
    using example_inline_run(2) [OF _ example_reply_person, of example_map_raw] by simp
  have m: "existingTokens example_host example_map_path
      (example_plugin ''ask Jane Doe'' example_map_raw) ''[PERSON_1]'' = Some ''John Smith''"
    by (simp add: example_existing example_tokens_def)
  have f: "map_resp person_response ''[PERSON_1]'' = Some ''Jane Doe''"
    by (simp add: person_response_def)
  have d: "vault (fresh_plugin ''ask Jane Doe'') example_map_path = None"
    by (simp add: fresh_plugin_def new_plugin_def example_map_path_def)
  have n2: "notices ?v' = [''Redacted 1 entities in selection'']"
    by (simp add: run_defs example_defs)
  have c2: "console ?v' = []"
    by (simp add: run_defs example_defs)
  from n c m f d n2 c2 show ?thesis by simp
qed

subsection \<open>C3: offline fail-fast\<close>

text \<open>
  Claim C3. Called while \<open>serverOnline\<close> is false, each of whole-document redaction,
  restoration and inline redaction returns the plugin as it was but for one more notice, the
  offline notice: no request has gone out and the vault is untouched.
\<close>

theorem offline_fail_fast:
  assumes "\<not> serverOnline w"
  shows "redactFile h f w = (Inr (), w\<lparr>notices := notices w @ [offline_notice]\<rparr>) \<and>
         restoreCurrentNote h w = (Inr (), w\<lparr>notices := notices w @ [offline_notice]\<rparr>) \<and>
         redactSelectedText h ctx_file w = (Inr (), w\<lparr>notices := notices w @ [offline_notice]\<rparr>)"
  using assms
  by (simp add: redactFile_def restoreCurrentNote_def redactSelectedText_def assertOnline_def
      Notice_def)

text \<open>The example plugin before its first status check.\<close>

theorem offline_fail_fast_witness:
  "\<not> serverOnline offline_plugin \<and>
   redactFile example_host example_file offline_plugin =
     (Inr (), offline_plugin\<lparr>notices := [offline_notice]\<rparr>) \<and>
   restoreCurrentNote example_host offline_plugin =
     (Inr (), offline_plugin\<lparr>notices := [offline_notice]\<rparr>) \<and>
   redactSelectedText example_host (Some example_file) offline_plugin =
     (Inr (), offline_plugin\<lparr>notices := [offline_notice]\<rparr>) \<and>
   requests (offline_plugin\<lparr>notices := [offline_notice]\<rparr>) = [] \<and>
   vault (offline_plugin\<lparr>notices := [offline_notice]\<rparr>) = example_vault example_map_raw"
proof -
  have h: "\<not> serverOnline offline_plugin" by (simp add: offline_plugin_def new_plugin_def)
  have n: "notices offline_plugin = []" by (simp add: offline_plugin_def new_plugin_def)
  have r: "requests offline_plugin = []" by (simp add: offline_plugin_def new_plugin_def)
  have v: "vault offline_plugin = example_vault example_map_raw"
    by (simp add: offline_plugin_def new_plugin_def)
  from offline_fail_fast [OF h, of example_host example_file "Some example_file"] h n r v
  show ?thesis by simp
qed

subsection \<open>C4: restoration without a map file\<close>

text \<open>
  Claim C4. Restoration of a note whose map path holds no file (nothing, or a folder) ends
  with the notice that no map was found and changes nothing else: no request goes out, no
  map is made up and no restored note is written.
\<close>

theorem restore_map_absent:
  assumes "serverOnline w" and "activeFile w = Some f"
    and "vault w (mapPath_of w f) = None \<or> vault w (mapPath_of w f) = Some Folder"
  shows "restoreCurrentNote h w =
           (Inr (), w\<lparr>notices := notices w @
              [''No map found for '' @ dquote @ name f @ dquote @ '' '' @ emdash @
               '' redact it first'']\<rparr>)"
  using assms
  by (auto simp add: restoreCurrentNote_def assertOnline_def Notice_def Let_def)

text \<open>The note before any redaction.\<close>

theorem restore_map_absent_witness:
  "serverOnline (fresh_plugin []) \<and>
   activeFile (fresh_plugin []) = Some example_file \<and>
   vault (fresh_plugin []) (mapPath_of (fresh_plugin []) example_file) = None \<and>
   restoreCurrentNote example_host (fresh_plugin []) =
     (Inr (), (fresh_plugin [])\<lparr>notices :=
        [''No map found for '' @ dquote @ ''note.md'' @ dquote @ '' '' @ emdash @
         '' redact it first'']\<rparr>)"
proof -
  have h1: "serverOnline (fresh_plugin [])" by (simp add: fresh_plugin_def)
  have h2: "activeFile (fresh_plugin []) = Some example_file"
    by (simp add: fresh_plugin_def new_plugin_def)
  have h3: "vault (fresh_plugin []) (mapPath_of (fresh_plugin []) example_file) = None"
    by (simp add: fresh_plugin_def new_plugin_def mapPath_of_def DEFAULT_SETTINGS_def
        example_file_def)
  have n: "notices (fresh_plugin []) = []" by (simp add: fresh_plugin_def new_plugin_def)
  from restore_map_absent [OF h1 h2 disjI1 [OF h3], of example_host] h1 h2 h3 n
  show ?thesis by (simp add: example_file_def)
qed

subsection \<open>C5: whole-document redaction writes a fresh map\<close>

text \<open>
  Claim C5. When whole-document redaction has read the note and has its reply, then unless
  it reports that the output files could not be saved, the map file holds the map made of
  the note's name, the time and the fragment of this reply alone, whatever the map file held
  before. And when no I/O call fails, the redacted path is not a folder and a map file of an
  earlier run exists, that is what happens: the old map is replaced and the entity counts
  are reported.
\<close>

theorem redactFile_fresh_map:
  fixes h f w r body old
  defines "mp \<equiv> mapPath_of w f"
  defines "fresh \<equiv> JSON_stringify h \<lparr>file_name = name f, created = now h, tokens = map_resp r\<rparr>"
  defines "w' \<equiv> snd (redactFile h f w)"
  assumes "serverOnline w" and "vault_read h (path f) w = Inr body"
    and "redact_reply h (serverUrl (settings w) @ ''/redact'') body (deepScan (settings w)) = Some r"
  shows "(notices w' = notices w @ [''Redactor: could not save output files.''] \<or>
          vault w' mp = Some (File fresh)) \<and>
         ((\<forall>op. \<not> io_fault h op) \<and>
          vault w (redactFolder (settings w) @ ''/'' @ name f) \<noteq> Some Folder \<and>
          vault w mp = Some (File old) \<longrightarrow>
            vault w' mp = Some (File fresh) \<and>
            notices w' = notices w @ [buildCountSummary (entity_counts r)])"
proof -
  define w1 where "w1 = w\<lparr>requests := requests w @
      [PostRedact (serverUrl (settings w) @ ''/redact'') body (deepScan (settings w))]\<rparr>"
  define s where "s = redactFile_save h f r w1"
  have run: "redactFile h f w =
      (case fst s of
         Inl e \<Rightarrow> (Inr (), Notice ''Redactor: could not save output files.''
                            (console_error ''Redactor: failed to save redacted file'' (snd s)))
       | Inr _ \<Rightarrow> (Inr (), snd s))"
    using assms(4-6) unfolding s_def w1_def
    by (simp add: redactFile_def assertOnline_def requestUrl_redact_def Let_def result_case)
  have mp1: "mapPath_of w1 f = mp" by (simp add: w1_def mp_def mapPath_of_def)
  have n1: "notices w1 = notices w" by (simp add: w1_def)
  note out = redactFile_save_outcome [of h f r w1, folded s_def, unfolded mp1 n1, folded fresh_def]
  have first: "notices w' = notices w @ [''Redactor: could not save output files.''] \<or>
          vault w' mp = Some (File fresh)"
  proof (cases "fst s")
    case (Inl e)
    with run out show ?thesis by (auto simp: w'_def Notice_def console_error_def)
  next
    case (Inr x)
    with run out show ?thesis by (simp add: w'_def)
  qed
  have second: "vault w' mp = Some (File fresh) \<and>
            notices w' = notices w @ [buildCountSummary (entity_counts r)]"
    if "\<forall>op. \<not> io_fault h op"
      and "vault w (redactFolder (settings w) @ ''/'' @ name f) \<noteq> Some Folder"
      and "vault w mp = Some (File old)"
  proof -
    have "fst s = Inr ()"
      unfolding s_def using that
      by (intro redactFile_save_nofault [where old = old])
         (simp_all add: w1_def mp_def mapPath_of_def)
    with run out show ?thesis by (simp add: w'_def)
  qed
  from first second show ?thesis by blast
qed

text \<open>
  The note is redacted again after the phone number was merged into its map: the new map
  file has the two tokens of the reply, and \<open>[PHONE_1]\<close> is gone.
\<close>

theorem redactFile_fresh_map_witness:
  "serverOnline (example_plugin [] merged_map_raw) \<and>
   vault_read example_host (path example_file) (example_plugin [] merged_map_raw)
     = Inr ''Contact John Smith at john@acme.com'' \<and>
   redact_reply example_host ''http://localhost:8765/redact''
     ''Contact John Smith at john@acme.com'' False = Some document_response \<and>
   io_fault example_host = (\<lambda>op. False) \<and>
   vault (example_plugin [] merged_map_raw) ''redact/redacted/note.md'' = None \<and>
   vault (example_plugin [] merged_map_raw) example_map_path = Some (File merged_map_raw) \<and>
   vault (snd (redactFile example_host example_file (example_plugin [] merged_map_raw)))
     example_map_path = Some (File fresh_map_raw) \<and>
   notices (snd (redactFile example_host example_file (example_plugin [] merged_map_raw)))
     = [''Redacted: 1 names, 1 emails'']"
proof -
  let ?w = "example_plugin [] merged_map_raw"
  have h1: "serverOnline ?w" by (rule example_online)
  have h2: "vault_read example_host (path example_file) ?w
      = Inr ''Contact John Smith at john@acme.com''"
    by (rule example_read_note)
  have h3: "redact_reply example_host (serverUrl (settings ?w) @ ''/redact'')
      ''Contact John Smith at john@acme.com'' (deepScan (settings ?w)) = Some document_response"
    by (simp add: example_url example_deep example_reply_document)
  have f: "io_fault example_host = (\<lambda>op. False)" by (simp add: example_host_def)
  have rp: "redactFolder (settings ?w) @ ''/'' @ name example_file = ''redact/redacted/note.md''"
    by (simp add: example_defs)
  have g: "vault ?w ''redact/redacted/note.md'' = None"
    by (simp add: example_plugin_def new_plugin_def example_vault_def example_map_path_def)
  have m: "vault ?w example_map_path = Some (File merged_map_raw)" by (rule example_map_file)
  have s: "example_stringify \<lparr>file_name = ''note.md'', created = ''2024-06-01T12:00:00.000Z'',
      tokens = map_resp document_response\<rparr> = fresh_map_raw"
    by (simp add: example_stringify_def document_response_def fresh_map_raw_def)
  have b: "buildCountSummary (entity_counts document_response) = ''Redacted: 1 names, 1 emails''"
    by (simp add: buildCountSummary_def document_response_def LABEL_DISPLAY_def show_int_def
        show_nat.simps)
  note inst = redactFile_fresh_map [OF h1 h2 h3, where old = merged_map_raw,
      unfolded example_mapPath rp]
  from inst f g m
  have "vault (snd (redactFile example_host example_file ?w)) example_map_path
      = Some (File fresh_map_raw) \<and>
     notices (snd (redactFile example_host example_file ?w)) = [''Redacted: 1 names, 1 emails'']"
    by (simp add: example_notices b) (simp add: example_host_def example_file_def s)
  with h1 h2 example_reply_document f g m show ?thesis by simp
qed

subsection \<open>C6: a failed detect call in whole-document redaction\<close>

text \<open>
  Claim C6. When the request of whole-document redaction fails, the call returns normally,
  the vault is what it was (no redacted note, no map file), no tab is opened, the one notice
  is the offline notice, and the plugin takes the server for offline.
\<close>

theorem redactFile_detect_failure:
  assumes "serverOnline w" and "vault_read h (path f) w = Inr body"
    and "redact_reply h (serverUrl (settings w) @ ''/redact'') body (deepScan (settings w)) = None"
  shows "fst (redactFile h f w) = Inr () \<and>
         vault (snd (redactFile h f w)) = vault w \<and>
         opened (snd (redactFile h f w)) = opened w \<and>
         notices (snd (redactFile h f w)) = notices w @ [offline_notice] \<and>
         serverOnline (snd (redactFile h f w)) = False \<and>
         requests (snd (redactFile h f w)) =
           requests w @ [PostRedact (serverUrl (settings w) @ ''/redact'') body (deepScan (settings w))]"
  using assms
  by (simp add: redactFile_def assertOnline_def requestUrl_redact_def request_failed_def
      refreshStatusUI_def Notice_def console_error_def Let_def)

text \<open>The server does not answer.\<close>

theorem redactFile_detect_failure_witness:
  "serverOnline (example_plugin [] example_map_raw) \<and>
   vault_read down_host (path example_file) (example_plugin [] example_map_raw)
     = Inr ''Contact John Smith at john@acme.com'' \<and>
   redact_reply down_host ''http://localhost:8765/redact''
     ''Contact John Smith at john@acme.com'' False = None \<and>
   vault (snd (redactFile down_host example_file (example_plugin [] example_map_raw)))
     = example_vault example_map_raw \<and>
   notices (snd (redactFile down_host example_file (example_plugin [] example_map_raw)))
     = [offline_notice] \<and>
   serverOnline (snd (redactFile down_host example_file (example_plugin [] example_map_raw)))
     = False"
proof -
  let ?w = "example_plugin [] example_map_raw"
  have h1: "serverOnline ?w" by (rule example_online)
  have h2: "vault_read down_host (path example_file) ?w
      = Inr ''Contact John Smith at john@acme.com''"
    using example_read_note [of "[]" example_map_raw]
    by (simp add: vault_read_def down_host_def example_host_def)
  have r: "redact_reply down_host ''http://localhost:8765/redact''
     ''Contact John Smith at john@acme.com'' False = None"
    by (simp add: down_host_def)
  have h3: "redact_reply down_host (serverUrl (settings ?w) @ ''/redact'')
      ''Contact John Smith at john@acme.com'' (deepScan (settings ?w)) = None"
    by (simp add: example_url example_deep r)
  have v: "vault ?w = example_vault example_map_raw"
    by (simp add: example_plugin_def new_plugin_def)
  from redactFile_detect_failure [OF h1 h2 h3] h1 h2 r v show ?thesis
    by (simp add: example_notices)
qed

subsection \<open>C7: restoration from a map file that does not parse\<close>

text \<open>
  Claim C7. Restoration of a note whose map file is there but does not parse ends with the
  notice that the map file is missing or corrupted, logged to the console as well, and
  changes nothing else: no request goes out and no restored note is written.
\<close>

theorem restore_map_corrupted:
  assumes "serverOnline w" and "activeFile w = Some f"
    and "vault w (mapPath_of w f) = Some (File raw)"
    and "JSON_parse h raw = None"
  shows "restoreCurrentNote h w =
           (Inr (), w\<lparr>notices := notices w @ [''Redactor: map file is missing or corrupted.''],
                      console := console w @ [''Redactor: failed to read map file'']\<rparr>)"
  using assms
  by (simp add: restoreCurrentNote_def assertOnline_def read_mapData_def vault_read_def
      Notice_def console_error_def Let_def)

text \<open>A map file that is not JSON.\<close>

theorem restore_map_corrupted_witness:
  "serverOnline (example_plugin [] ''{ not json'') \<and>
   activeFile (example_plugin [] ''{ not json'') = Some example_file \<and>
   vault (example_plugin [] ''{ not json'') example_map_path = Some (File ''{ not json'') \<and>
   JSON_parse example_host ''{ not json'' = None \<and>
   restoreCurrentNote example_host (example_plugin [] ''{ not json'') =
     (Inr (), (example_plugin [] ''{ not json'')
        \<lparr>notices := [''Redactor: map file is missing or corrupted.''],
         console := [''Redactor: failed to read map file'']\<rparr>)"
proof -
  let ?w = "example_plugin [] ''{ not json''"
  have h1: "serverOnline ?w" by (rule example_online)
  have h2: "activeFile ?w = Some example_file" by (simp add: example_plugin_def new_plugin_def)
  have h3: "vault ?w (mapPath_of ?w example_file) = Some (File ''{ not json'')"
    by (simp add: example_mapPath example_map_file)
  have h4: "JSON_parse example_host ''{ not json'' = None"
    by (simp add: example_host_def example_parse_def example_map_raw_def)
  from restore_map_corrupted [OF h1 h2 h3 h4] h1 h2 h3 h4 show ?thesis
    by (simp add: example_mapPath example_notices example_console)
qed

subsection \<open>C8: the health state\<close>

text \<open>
  Claim C8. A new plugin takes the server for offline. A status check returns normally
  whatever the server does, and leaves \<open>serverOnline\<close> true exactly when the status request
  was answered, whatever the flag was before.
\<close>

theorem health_state_machine:
  "serverOnline (new_plugin s v a e) = False \<and>
   fst (updateServerStatus h w) = Inr () \<and>
   serverOnline (snd (updateServerStatus h w)) =
     status_reply h (serverUrl (settings w) @ ''/status'')"
  by (simp add: new_plugin_def updateServerStatus_def requestUrl_status_def refreshStatusUI_def
      Let_def)

subsection \<open>C9: inline redaction over a corrupt map file\<close>

text \<open>
  Claim C9, as amended. When the map file of the note does not parse, inline redaction
  takes the existing tokens to be empty and goes on: the map it saves holds the fragment of
  the reply alone, and when neither the existence checks nor the write of the map file
  fail, the run ends with the entity count. The corruption is reported nowhere: the notices
  and the console hold what they hold after any other run, the entity count, or the failed
  save.
\<close>

theorem inline_corrupt_map_discarded:
  fixes h f w r
  defines "mp \<equiv> mapPath_of w f"
  defines "w' \<equiv> snd (redactSelectedText h (Some f) w)"
  assumes "serverOnline w" and "selection (editor w) \<noteq> []"
    and "redact_reply h (serverUrl (settings w) @ ''/redact'') (selection (editor w))
           (deepScan (settings w)) = Some r"
    and "vault w mp = Some (File raw)" and "JSON_parse h raw = None"
  shows "existingTokens h mp w = Map.empty \<and>
         ((notices w' = notices w @ [selectionSummary (entity_counts r)] \<and>
           console w' = console w \<and>
           vault w' mp = Some (File (JSON_stringify h
             \<lparr>file_name = name f, created = now h, tokens = map_resp r\<rparr>))) \<or>
          (notices w' = notices w @ [''Redactor: selection redacted but map save failed.''] \<and>
           console w' = console w @ [''Redactor: failed to save map''] \<and>
           vault w' mp = vault w mp)) \<and>
         (\<not> io_fault h (Modify mp) \<and> (\<forall>q. \<not> io_fault h (Exists q)) \<longrightarrow>
            notices w' = notices w @ [selectionSummary (entity_counts r)])"
proof -
  define w2 where "w2 = w\<lparr>requests := requests w @
                   [PostRedact (serverUrl (settings w) @ ''/redact'') (selection (editor w))
                      (deepScan (settings w))],
                editor := replaceSelection (redacted_text r) (editor w)\<rparr>"
  have empty: "existingTokens h mp w = Map.empty"
    using assms(6,7) by (simp add: existingTokens_def read_tokens_def vault_read_def)
  then have sp: "spread (existingTokens h mp w) (map_resp r) = map_resp r"
    by (simp add: spread_def)
  note out = redactSelectedText_outcome [OF assms(3-5), of f, folded mp_def w2_def w'_def]
  have dich: "(notices w' = notices w @ [selectionSummary (entity_counts r)] \<and>
           console w' = console w \<and>
           vault w' mp = Some (File (JSON_stringify h
             \<lparr>file_name = name f, created = now h, tokens = map_resp r\<rparr>))) \<or>
          (notices w' = notices w @ [''Redactor: selection redacted but map save failed.''] \<and>
           console w' = console w @ [''Redactor: failed to save map''] \<and>
           vault w' mp = vault w mp)"
    using out unfolding sp by blast
  have ok: "notices w' = notices w @ [selectionSummary (entity_counts r)]"
    if "\<not> io_fault h (Modify mp)" and "\<forall>q. \<not> io_fault h (Exists q)"
  proof -
    have "vault w2 (mapPath_of w2 f) = Some (File raw)"
      using assms(6) by (simp add: w2_def mp_def mapPath_of_def)
    moreover have "mapPath_of w2 f = mp" by (simp add: w2_def mp_def mapPath_of_def)
    ultimately have "fst (merge_save h f r w2) = Inr mp"
      using that by (simp add: merge_save_def Let_def saveVaultFile_modify_ok)
    with out show ?thesis by auto
  qed
  from empty dich ok show ?thesis by blast
qed

text \<open>A map file that is not JSON: the saved map holds the fragment alone.\<close>

theorem inline_corrupt_map_discarded_witness:
  "serverOnline (example_plugin ''John Smith on 07911 123456'' ''{ not json'') \<and>
   selection (editor (example_plugin ''John Smith on 07911 123456'' ''{ not json'')) \<noteq> [] \<and>
   redact_reply example_host ''http://localhost:8765/redact'' ''John Smith on 07911 123456'' False
     = Some phone_response \<and>
   vault (example_plugin ''John Smith on 07911 123456'' ''{ not json'') example_map_path
     = Some (File ''{ not json'') \<and>
   JSON_parse example_host ''{ not json'' = None \<and>
   io_fault example_host = (\<lambda>op. False) \<and>
   existingTokens example_host example_map_path
     (example_plugin ''John Smith on 07911 123456'' ''{ not json'') = Map.empty \<and>
   notices (snd (redactSelectedText example_host (Some example_file)
                   (example_plugin ''John Smith on 07911 123456'' ''{ not json'')))
     = [''Redacted 2 entities in selection''] \<and>
   vault (snd (redactSelectedText example_host (Some example_file)
                 (example_plugin ''John Smith on 07911 123456'' ''{ not json'')))
     example_map_path = Some (File fragment_map_raw)"
proof -
  let ?w = "example_plugin ''John Smith on 07911 123456'' ''{ not json''"
  let ?w' = "snd (redactSelectedText example_host (Some example_file) ?w)"
  have h1: "serverOnline ?w" by (rule example_online)
  have h2: "selection (editor ?w) \<noteq> []" by (simp add: example_selection)
  have h3: "redact_reply example_host (serverUrl (settings ?w) @ ''/redact'')
      (selection (editor ?w)) (deepScan (settings ?w)) = Some phone_response"
    by (simp add: example_url example_deep example_selection example_reply_phone)
  have h4: "vault ?w (mapPath_of ?w example_file) = Some (File ''{ not json'')"
    by (simp add: example_mapPath example_map_file)
  have h5: "JSON_parse example_host ''{ not json'' = None"
    by (simp add: example_host_def example_parse_def example_map_raw_def)
  have f: "io_fault example_host = (\<lambda>op. False)" by (simp add: example_host_def)
  note inst = inline_corrupt_map_discarded [OF h1 h2 h3 h4 h5, unfolded example_mapPath]
  have s: "example_stringify \<lparr>file_name = ''note.md'', created = ''2024-06-01T12:00:00.000Z'',
      tokens = map_resp phone_response\<rparr> = fragment_map_raw"
    by (simp add: example_stringify_def phone_response_def fragment_map_raw_def)
  from inst f have n: "notices ?w' = [''Redacted 2 entities in selection'']"
    by (simp add: example_notices summary_two)
  with inst have "vault ?w' example_map_path = Some (File fragment_map_raw)"
    by (simp add: example_notices summary_two) (simp add: example_host_def example_file_def s)
  with inst n h1 h2 example_reply_phone h4 h5 f show ?thesis
    by (simp add: example_mapPath)
qed

text \<open>
  Claim C9 as the specification states it, that the corruption is made visible to the
  reporting step, fails on this run: with a map file that does not parse, the notices and
  the console are those of the same run on a note that has no map file at all.
\<close>

theorem inline_corrupt_map_silent_counterexample:
  "vault (example_plugin ''John Smith on 07911 123456'' ''{ not json'') example_map_path
     = Some (File ''{ not json'') \<and>
   JSON_parse example_host ''{ not json'' = None \<and>
   notices (snd (redactSelectedText example_host (Some example_file)
                   (example_plugin ''John Smith on 07911 123456'' ''{ not json'')))
     = [''Redacted 2 entities in selection''] \<and>
   console (snd (redactSelectedText example_host (Some example_file)
                   (example_plugin ''John Smith on 07911 123456'' ''{ not json''))) = [] \<and>
   vault (fresh_plugin ''John Smith on 07911 123456'') example_map_path = None \<and>
   notices (snd (redactSelectedText example_host (Some example_file)
                   (fresh_plugin ''John Smith on 07911 123456'')))
     = [''Redacted 2 entities in selection''] \<and>
   console (snd (redactSelectedText example_host (Some example_file)
                   (fresh_plugin ''John Smith on 07911 123456''))) = []"
proof -
  let ?w' = "snd (redactSelectedText example_host (Some example_file)
                   (example_plugin ''John Smith on 07911 123456'' ''{ not json''))"
  let ?v' = "snd (redactSelectedText example_host (Some example_file)
                   (fresh_plugin ''John Smith on 07911 123456''))"
  have a: "vault (example_plugin ''John Smith on 07911 123456'' ''{ not json'') example_map_path
     = Some (File ''{ not json'')"
    by (rule example_map_file)
  have b: "JSON_parse example_host ''{ not json'' = None"
    by (simp add: example_host_def example_parse_def example_map_raw_def)
  have n: "notices ?w' = [''Redacted 2 entities in selection'']"
    using example_inline_run(1) [OF _ example_reply_phone, of "''{ not json''"]
    by (simp add: summary_two)
  have c: "console ?w' = []"
    using example_inline_run(2) [OF _ example_reply_phone, of "''{ not json''"] by simp
  have d: "vault (fresh_plugin ''John Smith on 07911 123456'') example_map_path = None"
    by (simp add: fresh_plugin_def new_plugin_def example_map_path_def)
  have n2: "notices ?v' = [''Redacted 2 entities in selection'']"
    by (simp add: run_defs example_defs)
  have c2: "console ?v' = []"
    by (simp add: run_defs example_defs)
  from a b n c d n2 c2 show ?thesis by simp
qed

subsection \<open>C10: a failed map save in inline redaction\<close>

text \<open>
  Claim C10. When inline redaction has its reply, the selection is replaced by the redacted
  text before the map is saved. If the save then throws, the call still returns normally,
  the editor keeps the redacted text, the entry at the map path is what it was, and the one
  notice is that the selection was redacted but the map save failed, not the entity count.
\<close>

theorem inline_save_failure:
  fixes h f w r
  defines "mp \<equiv> mapPath_of w f"
  defines "w2 \<equiv> w\<lparr>requests := requests w @
                   [PostRedact (serverUrl (settings w) @ ''/redact'') (selection (editor w))
                      (deepScan (settings w))],
                editor := replaceSelection (redacted_text r) (editor w)\<rparr>"
  assumes "serverOnline w" and "selection (editor w) \<noteq> []"
    and "redact_reply h (serverUrl (settings w) @ ''/redact'') (selection (editor w))
           (deepScan (settings w)) = Some r"
    and "fst (merge_save h f r w2) = Inl e"
  shows "fst (redactSelectedText h (Some f) w) = Inr () \<and>
         editor (snd (redactSelectedText h (Some f) w)) =
           replaceSelection (redacted_text r) (editor w) \<and>
         vault (snd (redactSelectedText h (Some f) w)) mp = vault w mp \<and>
         notices (snd (redactSelectedText h (Some f) w)) =
           notices w @ [''Redactor: selection redacted but map save failed.''] \<and>
         console (snd (redactSelectedText h (Some f) w)) =
           console w @ [''Redactor: failed to save map'']"
proof -
  define w3 where "w3 = snd (merge_save h f r w2)"
  have run: "redactSelectedText h (Some f) w =
      (Inr (), Notice ''Redactor: selection redacted but map save failed.''
                 (console_error ''Redactor: failed to save map'' w3))"
    using assms(3-6) unfolding w2_def w3_def
    by (auto simp: redactSelectedText_detected split: prod.splits)
  have mp2: "mapPath_of w2 f = mp" by (simp add: mp_def w2_def mapPath_of_def)
  from merge_save_fail [OF assms(6)] mp2
  have v: "vault w3 mp = vault w mp" by (simp add: w3_def w2_def)
  have e: "editor w3 = replaceSelection (redacted_text r) (editor w)"
    unfolding w3_def by (simp add: merge_save_fields w2_def)
  have n: "notices w3 = notices w" unfolding w3_def by (simp add: merge_save_fields w2_def)
  have c: "console w3 = console w" unfolding w3_def by (simp add: merge_save_fields w2_def)
  from run v e n c show ?thesis by (simp add: Notice_def console_error_def)
qed

text \<open>The map file cannot be modified.\<close>

theorem inline_save_failure_witness:
  "serverOnline (example_plugin ''John Smith on 07911 123456'' example_map_raw) \<and>
   selection (editor (example_plugin ''John Smith on 07911 123456'' example_map_raw)) \<noteq> [] \<and>
   redact_reply readonly_host ''http://localhost:8765/redact'' ''John Smith on 07911 123456'' False
     = Some phone_response \<and>
   io_fault readonly_host (Modify example_map_path) \<and>
   editor (snd (redactSelectedText readonly_host (Some example_file)
                  (example_plugin ''John Smith on 07911 123456'' example_map_raw)))
     = \<lparr>text_before = ''Please [PERSON_1] on [PHONE_1]'', selection = [],
        text_after = '' today.''\<rparr> \<and>
   vault (snd (redactSelectedText readonly_host (Some example_file)
                 (example_plugin ''John Smith on 07911 123456'' example_map_raw)))
     example_map_path = Some (File example_map_raw) \<and>
   notices (snd (redactSelectedText readonly_host (Some example_file)
                   (example_plugin ''John Smith on 07911 123456'' example_map_raw)))
     = [''Redactor: selection redacted but map save failed.'']"
proof -
  let ?w = "example_plugin ''John Smith on 07911 123456'' example_map_raw"
  let ?w2 = "?w\<lparr>requests := requests ?w @
                   [PostRedact (serverUrl (settings ?w) @ ''/redact'') (selection (editor ?w))
                      (deepScan (settings ?w))],
                editor := replaceSelection (redacted_text phone_response) (editor ?w)\<rparr>"
  have h1: "serverOnline ?w" by (rule example_online)
  have h2: "selection (editor ?w) \<noteq> []" by (simp add: example_selection)
  have r: "redact_reply readonly_host ''http://localhost:8765/redact''
      ''John Smith on 07911 123456'' False = Some phone_response"
    by (simp add: readonly_host_def example_host_def)
  have h3: "redact_reply readonly_host (serverUrl (settings ?w) @ ''/redact'')
      (selection (editor ?w)) (deepScan (settings ?w)) = Some phone_response"
    by (simp add: example_url example_deep example_selection r)
  have f: "io_fault readonly_host (Modify example_map_path)"
    by (simp add: readonly_host_def)
  have mp2: "mapPath_of ?w2 example_file = example_map_path"
    using example_mapPath [of "''John Smith on 07911 123456''" example_map_raw]
    by (simp add: mapPath_of_def)
  have "fst (saveVaultFile readonly_host example_map_path c ?w2) = Inl IOFailed" for c
    by (rule saveVaultFile_modify_fault [where ?c0.0 = example_map_raw])
       (simp_all add: example_map_file readonly_host_def)
  then have h4: "fst (merge_save readonly_host example_file phone_response ?w2) = Inl IOFailed"
    by (simp add: merge_save_def Let_def mp2)
  have e: "replaceSelection (redacted_text phone_response) (editor ?w) =
      \<lparr>text_before = ''Please [PERSON_1] on [PHONE_1]'', selection = [],
        text_after = '' today.''\<rparr>"
    by (simp add: replaceSelection_def phone_response_def example_plugin_def new_plugin_def)
  from inline_save_failure [OF h1 h2 h3 h4] h1 h2 r f e show ?thesis
    by (simp add: example_mapPath example_map_file example_notices)
qed

end
